theory Spec2Isabelle
  imports Complex_Main "HOL-Library.Log_Nat"
begin

section \<open>Values exchanged with the provider\<close>

text \<open>
  The handler of \<^verbatim>\<open>app4.py\<close> works on whatever \<^verbatim>\<open>r.json()\<close> returns, so the model
  keeps Python's dynamic values: every JSON value is a \<open>json\<close>, and every operation the
  source applies to one (attribute access, subscripting, \<^verbatim>\<open>len\<close>, unpacking,
  arithmetic) is a function that returns the exception Python raises where the value
  has the wrong shape.

  A JSON object is the association list of its dict, keys pairwise distinct and in
  insertion order. Python integers are \<open>int\<close>. A Python float is an IEEE 754 double,
  modelled below with its rounding. A string is the list of its characters.
\<close>

datatype py_error =
    AttributeError
  | TypeError
  | KeyError
  | IndexError
  | ValueError
  | OverflowError
  | HTTPError
  | RequestException
  | JSONDecodeError

type_synonym 'a result = "py_error + 'a"

text \<open>Sequencing: the first exception raised ends the computation.\<close>

definition and_then :: "'a result \<Rightarrow> ('a \<Rightarrow> 'b result) \<Rightarrow> 'b result" where
  "and_then r f = (case r of Inl e \<Rightarrow> Inl e | Inr x \<Rightarrow> f x)"

subsection \<open>Doubles\<close>

text \<open>
  A double is a finite value, kept as the rational it stands for (\<open>Finite 0\<close> is
  \<^verbatim>\<open>0.0\<close>), the negative zero, an infinity or NaN. Every finite double is
  \<open>m * 2 ^ e\<close> with \<open>\<bar>m\<bar> < 2 ^ 53\<close> and \<open>- 1074 \<le> e\<close>, below \<open>2 ^ 1024\<close> in
  magnitude. An arithmetic operation computes the exact result and rounds it to the
  nearest double, ties to the even one; a result that rounds to \<open>2 ^ 1024\<close> or more
  becomes an infinity.
\<close>

datatype pyfloat = Finite rat | NegZero | PosInf | NegInf | NaN

text \<open>Rounding to the nearest integer, ties to the even one, as Python 3 rounds.\<close>

definition round_half_even :: "rat \<Rightarrow> int" where
  "round_half_even x =
     (let f = \<lfloor>x\<rfloor>; d = x - of_int f in
      if d < 1 / 2 then f
      else if 1 / 2 < d then f + 1
      else if even f then f else f + 1)"

definition pow2 :: "int \<Rightarrow> rat" where
  "pow2 k = (if 0 \<le> k then 2 ^ nat k else 1 / 2 ^ nat (- k))"

text \<open>For \<open>0 < a\<close>, the exponent \<open>e\<close> with \<open>2 ^ e \<le> a < 2 ^ (e + 1)\<close>.\<close>

definition binade :: "rat \<Rightarrow> int" where
  "binade a = (if 1 \<le> a then bitlen \<lfloor>a\<rfloor> - 1 else - bitlen (\<lceil>1 / a\<rceil> - 1))"

text \<open>
  The double nearest to a rational: 53 significant bits in the binade of the value,
  the spacing of the subnormal range (\<open>2 ^ - 1074\<close>) below \<open>2 ^ - 1022\<close>.
\<close>

definition nearest_double :: "rat \<Rightarrow> pyfloat" where
  "nearest_double x =
     (if x = 0 then Finite 0
      else
        let a = \<bar>x\<bar>;
            q = pow2 (max (binade a) (- 1022) - 52);
            r = of_int (round_half_even (a / q)) * q
        in if pow2 1024 \<le> r then (if 0 < x then PosInf else NegInf)
           else if r = 0 then (if 0 < x then Finite 0 else NegZero)
           else Finite (if 0 < x then r else - r))"

fun is_finite :: "pyfloat \<Rightarrow> bool" where
  "is_finite (Finite r) = True"
| "is_finite NegZero = True"
| "is_finite _ = False"

fun value_of :: "pyfloat \<Rightarrow> rat" where
  "value_of (Finite r) = r"
| "value_of _ = 0"

fun is_negative :: "pyfloat \<Rightarrow> bool" where
  "is_negative (Finite r) = (r < 0)"
| "is_negative NegZero = True"
| "is_negative NegInf = True"
| "is_negative _ = False"

text \<open>\<^verbatim>\<open>x - y\<close> on doubles. An exact zero is \<^verbatim>\<open>0.0\<close>, except \<^verbatim>\<open>-0.0 - 0.0\<close>.\<close>

definition float_sub :: "pyfloat \<Rightarrow> pyfloat \<Rightarrow> pyfloat" where
  "float_sub x y =
     (if x = NaN \<or> y = NaN then NaN
      else if x = PosInf then (if y = PosInf then NaN else PosInf)
      else if x = NegInf then (if y = NegInf then NaN else NegInf)
      else if y = PosInf then NegInf
      else if y = NegInf then PosInf
      else
        let d = value_of x - value_of y
        in if d = 0 then (if x = NegZero \<and> y = Finite 0 then NegZero else Finite 0)
           else nearest_double d)"

text \<open>\<^verbatim>\<open>x * y\<close> on doubles; the sign of a zero or an infinity is the product of the signs.\<close>

definition float_mul :: "pyfloat \<Rightarrow> pyfloat \<Rightarrow> pyfloat" where
  "float_mul x y =
     (if x = NaN \<or> y = NaN then NaN
      else
        let negative = (is_negative x \<noteq> is_negative y)
        in if \<not> is_finite x \<or> \<not> is_finite y then
             (if (is_finite x \<and> value_of x = 0) \<or> (is_finite y \<and> value_of y = 0) then NaN
              else if negative then NegInf else PosInf)
           else
             let p = value_of x * value_of y
             in if p = 0 then (if negative then NegZero else Finite 0)
                else nearest_double p)"

text \<open>The double written \<^verbatim>\<open>3.6\<close>: the nearest one to 36/10.\<close>

definition three_point_six :: pyfloat where
  "three_point_six = Finite (8106479329266893 / 2251799813685248)"

text \<open>
  The conversion of an int in mixed arithmetic: the nearest double, and OverflowError
  ("int too large to convert to float") beyond the range.
\<close>

definition double_of_int :: "int \<Rightarrow> pyfloat result" where
  "double_of_int n =
     (case nearest_double (of_int n) of
        PosInf \<Rightarrow> Inl OverflowError
      | NegInf \<Rightarrow> Inl OverflowError
      | x \<Rightarrow> Inr x)"

text \<open>
  \<^verbatim>\<open>round(x)\<close> of a float: the nearest int, ties to even; OverflowError for an
  infinity, ValueError for NaN.
\<close>

fun float_round :: "pyfloat \<Rightarrow> int result" where
  "float_round (Finite r) = Inr (round_half_even r)"
| "float_round NegZero = Inr 0"
| "float_round NaN = Inl ValueError"
| "float_round _ = Inl OverflowError"

text \<open>
  \<^verbatim>\<open>round(x, 1)\<close> of a float: the value is rounded to one decimal, ties to even, and
  the decimal is read back as the nearest double; a zero keeps the sign of \<open>x\<close>; an
  infinity or NaN is returned as it is.
\<close>

definition py_round1 :: "pyfloat \<Rightarrow> pyfloat" where
  "py_round1 x =
     (case x of
        Finite r \<Rightarrow>
          (let k = round_half_even (r * 10)
           in if k = 0 then (if r < 0 then NegZero else Finite 0)
              else nearest_double (of_int k / 10))
      | _ \<Rightarrow> x)"

subsection \<open>JSON values\<close>

datatype json =
    JNull
  | JBool bool
  | JInt int
  | JFloat pyfloat
  | JStr string
  | JArr "json list"
  | JObj "(string \<times> json) list"

text \<open>A \<^verbatim>\<open>for\<close> loop that appends one result per element; an exception in the body ends it.\<close>

fun for_each :: "('a \<Rightarrow> 'b result) \<Rightarrow> 'a list \<Rightarrow> 'b list result" where
  "for_each f [] = Inr []"
| "for_each f (x # xs) =
     (case f x of
        Inl e \<Rightarrow> Inl e
      | Inr y \<Rightarrow> (case for_each f xs of Inl e \<Rightarrow> Inl e | Inr ys \<Rightarrow> Inr (y # ys)))"

text \<open>Truth value of a value in \<^verbatim>\<open>if x\<close>, \<^verbatim>\<open>not x\<close> and \<^verbatim>\<open>x or y\<close>.\<close>

fun truthy :: "json \<Rightarrow> bool" where
  "truthy JNull = False"
| "truthy (JBool b) = b"
| "truthy (JInt n) = (n \<noteq> 0)"
| "truthy (JFloat x) = (x \<noteq> Finite 0 \<and> x \<noteq> NegZero)"
| "truthy (JStr s) = (s \<noteq> [])"
| "truthy (JArr xs) = (xs \<noteq> [])"
| "truthy (JObj kvs) = (kvs \<noteq> [])"

definition py_or :: "json \<Rightarrow> json \<Rightarrow> json" where
  "py_or x y = (if truthy x then x else y)"

text \<open>\<^verbatim>\<open>x is None\<close>.\<close>

fun is_None :: "json \<Rightarrow> bool" where
  "is_None JNull = True"
| "is_None _ = False"

text \<open>\<^verbatim>\<open>d.get(key, default)\<close>: only a dict has the method.\<close>

fun py_get :: "json \<Rightarrow> string \<Rightarrow> json \<Rightarrow> json result" where
  "py_get (JObj kvs) k d = Inr (case map_of kvs k of None \<Rightarrow> d | Some v \<Rightarrow> v)"
| "py_get _ k d = Inl AttributeError"

text \<open>\<^verbatim>\<open>d["key"]\<close>: a missing key raises KeyError; a string key on anything but a dict is a TypeError.\<close>

fun py_getitem_key :: "json \<Rightarrow> string \<Rightarrow> json result" where
  "py_getitem_key (JObj kvs) k = (case map_of kvs k of None \<Rightarrow> Inl KeyError | Some v \<Rightarrow> Inr v)"
| "py_getitem_key _ k = Inl TypeError"

text \<open>
  \<^verbatim>\<open>xs[i]\<close> with a non-negative integer \<open>i\<close>: a list gives its element, a string its
  character, a JSON dict has no integer key, anything else is not subscriptable.
\<close>

fun py_getitem_idx :: "json \<Rightarrow> nat \<Rightarrow> json result" where
  "py_getitem_idx (JArr xs) i = (if i < length xs then Inr (xs ! i) else Inl IndexError)"
| "py_getitem_idx (JStr s) i = (if i < length s then Inr (JStr [s ! i]) else Inl IndexError)"
| "py_getitem_idx (JObj kvs) i = Inl KeyError"
| "py_getitem_idx _ i = Inl TypeError"

fun py_len :: "json \<Rightarrow> nat result" where
  "py_len (JArr xs) = Inr (length xs)"
| "py_len (JStr s) = Inr (length s)"
| "py_len (JObj kvs) = Inr (length kvs)"
| "py_len _ = Inl TypeError"

text \<open>Iteration (\<^verbatim>\<open>enumerate(x)\<close>, unpacking): a dict yields its keys, a string its characters.\<close>

fun py_iter :: "json \<Rightarrow> json list result" where
  "py_iter (JArr xs) = Inr xs"
| "py_iter (JStr s) = Inr (map (\<lambda>c. JStr [c]) s)"
| "py_iter (JObj kvs) = Inr (map (\<lambda>kv. JStr (fst kv)) kvs)"
| "py_iter _ = Inl TypeError"

text \<open>\<^verbatim>\<open>a, b = x\<close>: exactly two items, else ValueError.\<close>

definition py_unpack2 :: "json \<Rightarrow> (json \<times> json) result" where
  "py_unpack2 x =
     and_then (py_iter x) (\<lambda>items.
       case items of [a, b] \<Rightarrow> Inr (a, b) | _ \<Rightarrow> Inl ValueError)"

subsection \<open>Numbers\<close>

text \<open>\<^verbatim>\<open>isinstance(x, (int, float))\<close>; Python's \<^verbatim>\<open>bool\<close> is a subclass of \<^verbatim>\<open>int\<close>.\<close>

fun isinstance_int_float :: "json \<Rightarrow> bool" where
  "isinstance_int_float (JInt n) = True"
| "isinstance_int_float (JFloat r) = True"
| "isinstance_int_float (JBool b) = True"
| "isinstance_int_float _ = False"

fun is_float :: "json \<Rightarrow> bool" where
  "is_float (JFloat r) = True"
| "is_float _ = False"

fun int_value :: "json \<Rightarrow> int" where
  "int_value (JInt n) = n"
| "int_value (JBool b) = (if b then 1 else 0)"
| "int_value _ = 0"

text \<open>The double a number stands for in arithmetic with a float.\<close>

fun as_double :: "json \<Rightarrow> pyfloat result" where
  "as_double (JFloat x) = Inr x"
| "as_double v = double_of_int (int_value v)"

text \<open>
  \<^verbatim>\<open>a - b\<close>: the exact difference when both are ints, the difference of doubles when one
  is a float (the other converted first), TypeError when one is not a number.
\<close>

definition py_sub :: "json \<Rightarrow> json \<Rightarrow> json result" where
  "py_sub a b =
     (if isinstance_int_float a \<and> isinstance_int_float b then
        (if is_float a \<or> is_float b then
           and_then (as_double a) (\<lambda>x.
           and_then (as_double b) (\<lambda>y. Inr (JFloat (float_sub x y))))
         else Inr (JInt (int_value a - int_value b)))
      else Inl TypeError)"

text \<open>\<^verbatim>\<open>round(x)\<close>: an int; defined on numbers only.\<close>

fun py_round :: "json \<Rightarrow> int result" where
  "py_round (JInt n) = Inr n"
| "py_round (JBool b) = Inr (if b then 1 else 0)"
| "py_round (JFloat x) = float_round x"
| "py_round _ = Inl TypeError"

section \<open>Color mapping\<close>

text \<open>
  \<^verbatim>\<open>color_for_congestion(c)\<close> looks \<open>c\<close> up in a dict literal with \<^verbatim>\<open>.get(c, "gray")\<close>.
  The lookup hashes \<open>c\<close>: a list or a dict is unhashable and raises TypeError. No key of
  the table is a number, so the keys compare by structure.
\<close>

fun hashable :: "json \<Rightarrow> bool" where
  "hashable (JArr xs) = False"
| "hashable (JObj kvs) = False"
| "hashable _ = True"

definition congestion_table :: "(json \<times> string) list" where
  "congestion_table =
     [(JStr ''low'', ''green''),
      (JStr ''moderate'', ''orange''),
      (JStr ''heavy'', ''red''),
      (JStr ''severe'', ''darkred''),
      (JStr ''unknown'', ''gray''),
      (JNull, ''gray'')]"

definition color_for_congestion :: "json \<Rightarrow> string result" where
  "color_for_congestion c =
     (if hashable c then
        Inr (case map_of congestion_table c of None \<Rightarrow> ''gray'' | Some v \<Rightarrow> v)
      else Inl TypeError)"

section \<open>Response assembler\<close>

text \<open>The payload built for one segment, one route and one request, field by field.\<close>

record segment =
  seg_coords :: "(json \<times> json) \<times> (json \<times> json)"
  seg_congestion :: json
  seg_color :: string
  seg_speed_kmh :: json
  seg_duration_s :: json

record durations =
  base_s :: int
  traffic_s :: int
  delay_s :: int

record route_payload =
  route_id :: nat
  route_distance_m :: json
  route_durations :: durations
  route_segments :: "segment list"

text \<open>\<^verbatim>\<open>xs[i] if i < len(xs) else None\<close>, the read of an annotation array (lines 106-108).\<close>

definition aligned_entry :: "json \<Rightarrow> nat \<Rightarrow> json result" where
  "aligned_entry xs i =
     and_then (py_len xs) (\<lambda>n. if i < n then py_getitem_idx xs i else Inr JNull)"

text \<open>
  \<^verbatim>\<open>round(speed_ms * 3.6, 1) if isinstance(speed_ms, (int, float)) else None\<close> (line
  114): an int or a boolean is converted to a double before the product.
\<close>

definition speed_kmh_of :: "json \<Rightarrow> json result" where
  "speed_kmh_of speed_ms =
     (if isinstance_int_float speed_ms
      then and_then (as_double speed_ms) (\<lambda>x.
             Inr (JFloat (py_round1 (float_mul x three_point_six))))
      else Inr JNull)"

text \<open>
  The body of the inner loop (lines 104-116), for index \<open>i\<close>; the dict literal
  evaluates the color before the speed.
\<close>

definition build_segment :: "json \<Rightarrow> json \<Rightarrow> json \<Rightarrow> json \<Rightarrow> nat \<Rightarrow> segment result" where
  "build_segment congestions speeds seg_durations coords i =
     and_then (and_then (py_getitem_idx coords i) py_unpack2) (\<lambda>(lon_a, lat_a).
     and_then (and_then (py_getitem_idx coords (i + 1)) py_unpack2) (\<lambda>(lon_b, lat_b).
     and_then (aligned_entry congestions i) (\<lambda>cong.
     and_then (aligned_entry speeds i) (\<lambda>speed_ms.
     and_then (aligned_entry seg_durations i) (\<lambda>dur_s.
     and_then (color_for_congestion cong) (\<lambda>col.
     and_then (speed_kmh_of speed_ms) (\<lambda>speed_kmh.
       Inr \<lparr>seg_coords = ((lat_a, lon_a), (lat_b, lon_b)),
            seg_congestion = cong,
            seg_color = col,
            seg_speed_kmh = speed_kmh,
            seg_duration_s = dur_s\<rparr>)))))))"

text \<open>\<^verbatim>\<open>for i in range(len(coords) - 1)\<close>: no iteration when there are fewer than two vertices.\<close>

definition build_segments :: "json \<Rightarrow> json \<Rightarrow> json \<Rightarrow> json \<Rightarrow> segment list result" where
  "build_segments congestions speeds seg_durations coords =
     and_then (py_len coords) (\<lambda>n.
       for_each (build_segment congestions speeds seg_durations coords) [0..<n - 1])"

text \<open>Line 92: the baseline duration paired with live route \<open>ridx\<close>.\<close>

definition base_duration_for :: "json \<Rightarrow> nat \<Rightarrow> json \<Rightarrow> json result" where
  "base_duration_for base_routes ridx live_duration =
     and_then (py_len base_routes) (\<lambda>n.
       if ridx < n
       then and_then (py_getitem_idx base_routes ridx) (\<lambda>r. py_getitem_key r ''duration'')
       else Inr live_duration)"

text \<open>Line 94: \<^verbatim>\<open>(live_route.get("legs") or [{}])[0]\<close>.\<close>

definition first_leg :: "json \<Rightarrow> json result" where
  "first_leg live_route =
     and_then (py_get live_route ''legs'' JNull) (\<lambda>legs.
       py_getitem_idx (py_or legs (JArr [JObj []])) 0)"

text \<open>Lines 97-99: \<^verbatim>\<open>ann.get(key, []) or []\<close>.\<close>

definition annotation_array :: "json \<Rightarrow> string \<Rightarrow> json result" where
  "annotation_array ann key =
     and_then (py_get ann key (JArr [])) (\<lambda>v. Inr (py_or v (JArr [])))"

text \<open>Line 100: \<^verbatim>\<open>live_route.get("geometry", {}).get("coordinates", [])\<close>.\<close>

definition route_coords :: "json \<Rightarrow> json result" where
  "route_coords live_route =
     and_then (py_get live_route ''geometry'' (JObj [])) (\<lambda>g.
       py_get g ''coordinates'' (JArr []))"

text \<open>Lines 118-127: the durations record.\<close>

definition build_durations :: "json \<Rightarrow> json \<Rightarrow> durations result" where
  "build_durations live_duration base_duration =
     and_then (py_sub live_duration base_duration) (\<lambda>diff.
     and_then (py_round diff) (\<lambda>rounded.
     and_then (py_round base_duration) (\<lambda>b.
     and_then (py_round live_duration) (\<lambda>t.
       Inr \<lparr>base_s = b, traffic_s = t, delay_s = max 0 rounded\<rparr>))))"

text \<open>The body of the outer loop (lines 90-129) for one item of \<^verbatim>\<open>enumerate(live_routes)\<close>.\<close>

definition build_route :: "json \<Rightarrow> nat \<times> json \<Rightarrow> route_payload result" where
  "build_route base_routes item =
     (case item of (ridx, live_route) \<Rightarrow>
     and_then (py_get live_route ''distance'' (JInt 0)) (\<lambda>distance_m.
     and_then (py_get live_route ''duration'' (JInt 0)) (\<lambda>live_duration.
     and_then (base_duration_for base_routes ridx live_duration) (\<lambda>base_duration.
     and_then (first_leg live_route) (\<lambda>leg.
     and_then (py_get leg ''annotation'' (JObj [])) (\<lambda>ann.
     and_then (annotation_array ann ''congestion'') (\<lambda>congestions.
     and_then (annotation_array ann ''speed'') (\<lambda>speeds.
     and_then (annotation_array ann ''duration'') (\<lambda>seg_durations.
     and_then (route_coords live_route) (\<lambda>coords.
     and_then (build_segments congestions speeds seg_durations coords) (\<lambda>segments.
     and_then (build_durations live_duration base_duration) (\<lambda>ds.
       Inr \<lparr>route_id = ridx,
            route_distance_m = distance_m,
            route_durations = ds,
            route_segments = segments\<rparr>))))))))))))"

text \<open>Lines 88-129: \<^verbatim>\<open>routes_payload\<close>.\<close>

definition assemble :: "json \<Rightarrow> json \<Rightarrow> route_payload list result" where
  "assemble base_routes live_routes =
     and_then (py_iter live_routes) (\<lambda>lives.
       for_each (build_route base_routes) (enumerate 0 lives))"

section \<open>Outbound calls\<close>

text \<open>
  The two adapters call the provider over HTTP. A call is recorded in a log; the
  provider is any function from the calls made so far (the current one last) to what
  comes back. \<^verbatim>\<open>requests.get\<close> raises on a transport failure, \<^verbatim>\<open>raise_for_status\<close>
  raises on a status from 400 to 599, and \<^verbatim>\<open>r.json()\<close> raises on a body that is not
  JSON (\<open>None\<close> here).
\<close>

datatype outbound =
    Geocoding string
  | Directions string json json json json "string option" bool

datatype http_reply =
    Transport_failure
  | Http_reply nat "json option"

type_synonym provider = "outbound list \<Rightarrow> http_reply"

definition http_get_json :: "provider \<Rightarrow> outbound list \<Rightarrow> outbound \<Rightarrow> json result \<times> outbound list" where
  "http_get_json env calls call =
     (let calls' = calls @ [call] in
      (case env calls' of
         Transport_failure \<Rightarrow> Inl RequestException
       | Http_reply status body \<Rightarrow>
           if 400 \<le> status \<and> status < 600 then Inl HTTPError
           else (case body of None \<Rightarrow> Inl JSONDecodeError | Some data \<Rightarrow> Inr data),
       calls'))"

text \<open>Lines 22-25 of \<^verbatim>\<open>geocode_place\<close>: the answer read off the provider's JSON.\<close>

definition geocode_result :: "json \<Rightarrow> (json \<times> json) result" where
  "geocode_result data =
     and_then (py_get data ''features'' JNull) (\<lambda>features.
       if truthy features then
         and_then (py_getitem_key data ''features'') (\<lambda>fs.
         and_then (py_getitem_idx fs 0) (\<lambda>f.
         and_then (py_getitem_key f ''geometry'') (\<lambda>g.
         and_then (py_getitem_key g ''coordinates'') (\<lambda>cs.
         and_then (py_unpack2 cs) (\<lambda>(lon, lat). Inr (lat, lon))))))
       else Inr (JNull, JNull))"

definition geocode_place :: "provider \<Rightarrow> outbound list \<Rightarrow> string \<Rightarrow> (json \<times> json) result \<times> outbound list" where
  "geocode_place env calls place =
     (case http_get_json env calls (Geocoding place) of
        (Inl e, calls') \<Rightarrow> (Inl e, calls')
      | (Inr data, calls') \<Rightarrow> (geocode_result data, calls'))"

text \<open>\<^verbatim>\<open>mapbox_directions\<close>: the annotations parameter is sent only when it is truthy.\<close>

definition mapbox_directions ::
  "provider \<Rightarrow> outbound list \<Rightarrow> json \<Rightarrow> json \<Rightarrow> json \<Rightarrow> json \<Rightarrow> string \<Rightarrow> string option \<Rightarrow> bool
     \<Rightarrow> json result \<times> outbound list" where
  "mapbox_directions env calls lat1 lon1 lat2 lon2 profile annotations alternatives =
     http_get_json env calls
       (Directions profile lat1 lon1 lat2 lon2
          (case annotations of None \<Rightarrow> None | Some a \<Rightarrow> if a = [] then None else Some a)
          alternatives)"

section \<open>The route query\<close>

text \<open>
  \<^verbatim>\<open>str.strip()\<close> removes the whitespace characters at both ends; among the characters
  below 256 these are 9 to 13, 28 to 32, 133 and 160.
\<close>

definition isspace :: "char \<Rightarrow> bool" where
  "isspace c =
     (let n = (of_char c :: nat) in (9 \<le> n \<and> n \<le> 13) \<or> (28 \<le> n \<and> n \<le> 32) \<or> n = 133 \<or> n = 160)"

definition strip :: "string \<Rightarrow> string" where
  "strip s = rev (dropWhile isspace (rev (dropWhile isspace s)))"

text \<open>
  A parameter is blank when it is missing, empty or made of whitespace only; this
  definition follows the description of the interface, not the handler.
\<close>

definition blank :: "string option \<Rightarrow> bool" where
  "blank a = (case a of None \<Rightarrow> True | Some s \<Rightarrow> list_all isspace s)"

text \<open>\<^verbatim>\<open>request.args.get(key, "")\<close>: the parameter, or the empty string when it is missing.\<close>

definition arg_or_empty :: "string option \<Rightarrow> string" where
  "arg_or_empty a = (case a of None \<Rightarrow> [] | Some s \<Rightarrow> s)"

record place_echo =
  place_name :: string
  place_lat :: json
  place_lon :: json

datatype body =
    Error_body string
  | Routes_body place_echo place_echo "route_payload list"

text \<open>A response is the JSON body and the HTTP status (200 when the handler gives none).\<close>

type_synonym response = "body \<times> nat"

text \<open>What lines 62-86 fetch when no early response is returned.\<close>

record fetched =
  start_name :: string
  end_name :: string
  lat1 :: json
  lon1 :: json
  lat2 :: json
  lon2 :: json
  base_routes :: json
  live_routes :: json

text \<open>
  Lines 62-86: validation, geocoding and the two directions queries. The result is the
  early response of one of the four \<^verbatim>\<open>return\<close> statements, or what was fetched.
\<close>

definition fetch_routes ::
  "provider \<Rightarrow> string option \<Rightarrow> string option \<Rightarrow> (response + fetched) result \<times> outbound list" where
  "fetch_routes env start_arg end_arg =
     (let start = strip (arg_or_empty start_arg);
          end_p = strip (arg_or_empty end_arg) in
      if start = [] \<or> end_p = [] then
        (Inr (Inl (Error_body ''start and end are required'', 400)), [])
      else
        (case geocode_place env [] start of
           (Inl e, calls1) \<Rightarrow> (Inl e, calls1)
         | (Inr (la1, lo1), calls1) \<Rightarrow>
        (case geocode_place env calls1 end_p of
           (Inl e, calls2) \<Rightarrow> (Inl e, calls2)
         | (Inr (la2, lo2), calls2) \<Rightarrow>
        if is_None la1 \<or> is_None la2 then
          (Inr (Inl (Error_body ''Could not geocode one or both places.'', 400)), calls2)
        else
        (case mapbox_directions env calls2 la1 lo1 la2 lo2 ''driving'' None True of
           (Inl e, calls3) \<Rightarrow> (Inl e, calls3)
         | (Inr base_json, calls3) \<Rightarrow>
        (case py_get base_json ''routes'' (JArr []) of
           Inl e \<Rightarrow> (Inl e, calls3)
         | Inr base \<Rightarrow>
        if \<not> truthy base then
          (Inr (Inl (Error_body ''No base routes found'', 404)), calls3)
        else
        (case mapbox_directions env calls3 la1 lo1 la2 lo2 ''driving-traffic''
                (Some ''congestion,congestion_numeric,speed,duration,distance'') True of
           (Inl e, calls4) \<Rightarrow> (Inl e, calls4)
         | (Inr live_json, calls4) \<Rightarrow>
        (case py_get live_json ''routes'' (JArr []) of
           Inl e \<Rightarrow> (Inl e, calls4)
         | Inr live \<Rightarrow>
        if \<not> truthy live then
          (Inr (Inl (Error_body ''No live traffic routes found'', 404)), calls4)
        else
          (Inr (Inr \<lparr>start_name = start, end_name = end_p,
                     lat1 = la1, lon1 = lo1, lat2 = la2, lon2 = lo2,
                     base_routes = base, live_routes = live\<rparr>), calls4))))))))"

text \<open>\<^verbatim>\<open>api_route\<close>: lines 62-86, then the assembler, then the success response (lines 131-135).\<close>

definition api_route ::
  "provider \<Rightarrow> string option \<Rightarrow> string option \<Rightarrow> response result \<times> outbound list" where
  "api_route env start_arg end_arg =
     (case fetch_routes env start_arg end_arg of
        (Inl e, calls) \<Rightarrow> (Inl e, calls)
      | (Inr (Inl early), calls) \<Rightarrow> (Inr early, calls)
      | (Inr (Inr f), calls) \<Rightarrow>
          (case assemble (base_routes f) (live_routes f) of
             Inl e \<Rightarrow> (Inl e, calls)
           | Inr routes_payload \<Rightarrow>
               (Inr (Routes_body
                       \<lparr>place_name = start_name f, place_lat = lat1 f, place_lon = lon1 f\<rparr>
                       \<lparr>place_name = end_name f, place_lat = lat2 f, place_lon = lon2 f\<rparr>
                       routes_payload, 200), calls)))"

section \<open>A sample exchange\<close>

text \<open>
  A provider that knows two places and answers the baseline query with one route and
  the live-traffic query with two: the first with four vertices and annotation arrays
  of different lengths, the second without distance, duration, legs or geometry.
\<close>

definition sample_feature :: "rat \<Rightarrow> rat \<Rightarrow> json" where
  "sample_feature lon lat =
     JObj [(''features'',
            JArr [JObj [(''geometry'', JObj [(''coordinates'', JArr [JFloat (Finite lon), JFloat (Finite lat)])])]])]"

definition sample_base :: json where
  "sample_base = JObj [(''routes'', JArr [JObj [(''duration'', JFloat (Finite (5 / 8))), (''distance'', JInt 900)]])]"

definition sample_live_route :: json where
  "sample_live_route =
     JObj [(''distance'', JInt 1000),
           (''duration'', JFloat (Finite (11 / 8))),
           (''legs'',
            JArr [JObj [(''annotation'',
                         JObj [(''congestion'', JArr [JStr ''heavy'']),
                               (''speed'', JArr [JFloat (Finite (1 / 8)), JStr ''fast'']),
                               (''duration'', JArr [])])]]),
           (''geometry'',
            JObj [(''coordinates'',
                   JArr [JArr [JInt 77, JInt 28], JArr [JInt 78, JInt 27], JArr [JInt 78, JInt 26],
                         JArr [JInt 79, JInt 26]])])]"

definition sample_live :: json where
  "sample_live = JObj [(''routes'', JArr [sample_live_route, JObj []])]"

definition sample_provider :: provider where
  "sample_provider calls =
     (case last calls of
        Geocoding place \<Rightarrow>
          if place = ''Delhi'' then Http_reply 200 (Some (sample_feature (309 / 4) (229 / 8)))
          else if place = ''Agra'' then Http_reply 200 (Some (sample_feature 78 (217 / 8)))
          else Http_reply 200 (Some (JObj [(''features'', JArr [])]))
      | Directions profile la1 lo1 la2 lo2 annotations alternatives \<Rightarrow>
          if profile = ''driving'' then Http_reply 200 (Some sample_base)
          else Http_reply 200 (Some sample_live))"

text \<open>What the handler fetches from the sample provider, and its answer.\<close>

definition sample_calls :: "outbound list" where
  "sample_calls =
     [Geocoding ''Delhi'', Geocoding ''Agra'',
      Directions ''driving'' (JFloat (Finite (229 / 8))) (JFloat (Finite (309 / 4))) (JFloat (Finite (217 / 8))) (JFloat (Finite 78))
        None True,
      Directions ''driving-traffic'' (JFloat (Finite (229 / 8))) (JFloat (Finite (309 / 4))) (JFloat (Finite (217 / 8)))
        (JFloat (Finite 78)) (Some ''congestion,congestion_numeric,speed,duration,distance'') True]"

definition sample_fetched :: fetched where
  "sample_fetched =
     \<lparr>start_name = ''Delhi'', end_name = ''Agra'',
      lat1 = JFloat (Finite (229 / 8)), lon1 = JFloat (Finite (309 / 4)),
      lat2 = JFloat (Finite (217 / 8)), lon2 = JFloat (Finite 78),
      base_routes = JArr [JObj [(''duration'', JFloat (Finite (5 / 8))), (''distance'', JInt 900)]],
      live_routes = JArr [sample_live_route, JObj []]\<rparr>"

definition sample_routes :: "route_payload list" where
  "sample_routes =
     [\<lparr>route_id = 0, route_distance_m = JInt 1000,
       route_durations = \<lparr>base_s = 1, traffic_s = 1, delay_s = 1\<rparr>,
       route_segments =
         [\<lparr>seg_coords = ((JInt 28, JInt 77), (JInt 27, JInt 78)),
           seg_congestion = JStr ''heavy'', seg_color = ''red'',
           seg_speed_kmh = JFloat (Finite (1 / 2)), seg_duration_s = JNull\<rparr>,
          \<lparr>seg_coords = ((JInt 27, JInt 78), (JInt 26, JInt 78)),
           seg_congestion = JNull, seg_color = ''gray'',
           seg_speed_kmh = JNull, seg_duration_s = JNull\<rparr>,
          \<lparr>seg_coords = ((JInt 26, JInt 78), (JInt 26, JInt 79)),
           seg_congestion = JNull, seg_color = ''gray'',
           seg_speed_kmh = JNull, seg_duration_s = JNull\<rparr>]\<rparr>,
      \<lparr>route_id = 1, route_distance_m = JInt 0,
       route_durations = \<lparr>base_s = 0, traffic_s = 0, delay_s = 0\<rparr>,
       route_segments = []\<rparr>]"

definition sample_response :: response where
  "sample_response =
     (Routes_body
        \<lparr>place_name = ''Delhi'', place_lat = JFloat (Finite (229 / 8)), place_lon = JFloat (Finite (309 / 4))\<rparr>
        \<lparr>place_name = ''Agra'', place_lat = JFloat (Finite (217 / 8)), place_lon = JFloat (Finite 78)\<rparr>
        sample_routes, 200)"

text \<open>
  Variations of the sample provider: the same two places, with the bodies of the two
  directions replies given; a provider that cannot be reached; one that answers every
  call with an error status; one whose only feature has the coordinates
  \<^verbatim>\<open>[null, null]\<close>.
\<close>

definition sample_provider_with :: "json \<Rightarrow> json \<Rightarrow> provider" where
  "sample_provider_with base_reply live_reply calls =
     (case last calls of
        Geocoding place \<Rightarrow>
          if place = ''Delhi'' then Http_reply 200 (Some (sample_feature (309 / 4) (229 / 8)))
          else if place = ''Agra'' then Http_reply 200 (Some (sample_feature 78 (217 / 8)))
          else Http_reply 200 (Some (JObj [(''features'', JArr [])]))
      | Directions profile la1 lo1 la2 lo2 annotations alternatives \<Rightarrow>
          if profile = ''driving'' then Http_reply 200 (Some base_reply)
          else Http_reply 200 (Some live_reply))"

text \<open>A directions reply with one route that has a duration and nothing else.\<close>

definition duration_only_reply :: "json \<Rightarrow> json" where
  "duration_only_reply d = JObj [(''routes'', JArr [JObj [(''duration'', d)]])]"

definition offline_provider :: provider where
  "offline_provider calls = Transport_failure"

definition failing_provider :: "nat \<Rightarrow> provider" where
  "failing_provider status calls = Http_reply status None"

definition null_coordinates_reply :: json where
  "null_coordinates_reply =
     JObj [(''features'',
            JArr [JObj [(''geometry'', JObj [(''coordinates'', JArr [JNull, JNull])])]])]"

definition null_coordinates_provider :: provider where
  "null_coordinates_provider calls = Http_reply 200 (Some null_coordinates_reply)"

section \<open>What a successful run has computed\<close>

text \<open>
  A computation that returns has returned from each of its steps; these lemmas read the
  steps back from a result, for the loops, the assembler and the handler.
\<close>

lemma and_then_Inr: "and_then r f = Inr y \<longleftrightarrow> (\<exists>x. r = Inr x \<and> f x = Inr y)"
  by (cases r) (simp_all add: and_then_def)

lemma for_each_Inr:
  "for_each f xs = Inr ys \<Longrightarrow> length ys = length xs \<and> (\<forall>i<length xs. f (xs ! i) = Inr (ys ! i))"
proof (induction xs arbitrary: ys)
  case Nil
  then show ?case by simp
next
  case (Cons x xs)
  from Cons.prems obtain y ys' where fx: "f x = Inr y" and rest: "for_each f xs = Inr ys'"
    and ys: "ys = y # ys'"
    by (auto split: sum.splits)
  from Cons.IH [OF rest] have len: "length ys' = length xs"
    and nth: "\<forall>i<length xs. f (xs ! i) = Inr (ys' ! i)" by simp_all
  show ?case
  proof (intro conjI allI impI)
    show "length ys = length (x # xs)" using len ys by simp
  next
    fix i assume "i < length (x # xs)"
    then show "f ((x # xs) ! i) = Inr (ys ! i)"
      using fx nth ys by (cases i) simp_all
  qed
qed

lemma build_segments_Inr:
  assumes "build_segments cg sp sd coords = Inr segs"
  shows "\<exists>n. py_len coords = Inr n \<and> length segs = n - 1 \<and>
           (\<forall>i<n - 1. build_segment cg sp sd coords i = Inr (segs ! i))"
proof -
  from assms obtain n where n: "py_len coords = Inr n"
    and loop: "for_each (build_segment cg sp sd coords) [0..<n - 1] = Inr segs"
    by (auto simp: build_segments_def and_then_Inr)
  from for_each_Inr [OF loop] show ?thesis using n by simp
qed

lemma build_route_Inr:
  assumes "build_route base (k, lr) = Inr rp"
  shows "\<exists>distance_m live_duration base_duration leg ann cg sp sd coords segs ds.
           py_get lr ''distance'' (JInt 0) = Inr distance_m \<and>
           py_get lr ''duration'' (JInt 0) = Inr live_duration \<and>
           base_duration_for base k live_duration = Inr base_duration \<and>
           first_leg lr = Inr leg \<and>
           py_get leg ''annotation'' (JObj []) = Inr ann \<and>
           annotation_array ann ''congestion'' = Inr cg \<and>
           annotation_array ann ''speed'' = Inr sp \<and>
           annotation_array ann ''duration'' = Inr sd \<and>
           route_coords lr = Inr coords \<and>
           build_segments cg sp sd coords = Inr segs \<and>
           build_durations live_duration base_duration = Inr ds \<and>
           rp = \<lparr>route_id = k, route_distance_m = distance_m, route_durations = ds,
                  route_segments = segs\<rparr>"
  using assms unfolding build_route_def prod.case and_then_Inr by blast

lemma assemble_Inr:
  assumes "assemble base live = Inr routes"
  shows "\<exists>lives. py_iter live = Inr lives \<and> length routes = length lives \<and>
           (\<forall>k<length lives. build_route base (k, lives ! k) = Inr (routes ! k))"
proof -
  from assms obtain lives where it: "py_iter live = Inr lives"
    and loop: "for_each (build_route base) (enumerate 0 lives) = Inr routes"
    by (auto simp: assemble_def and_then_Inr)
  from for_each_Inr [OF loop] show ?thesis using it by (simp add: nth_enumerate_eq)
qed

lemma py_get_Inr_obj: "py_get x k d = Inr v \<Longrightarrow> \<exists>kvs. x = JObj kvs"
  by (cases x) simp_all

lemma assemble_list:
  assumes "assemble base live = Inr routes" and "truthy live"
  shows "\<exists>lives. live = JArr lives \<and> length routes = length lives \<and>
           (\<forall>k<length lives. build_route base (k, lives ! k) = Inr (routes ! k))"
proof -
  from assemble_Inr [OF assms(1)] obtain lives where it: "py_iter live = Inr lives"
    and len: "length routes = length lives"
    and each: "\<forall>k<length lives. build_route base (k, lives ! k) = Inr (routes ! k)"
    by blast
  have "live = JArr lives"
  proof (cases live)
    case (JArr xs)
    then show ?thesis using it by simp
  next
    case (JStr s)
    with it assms(2) have "lives \<noteq> []" and "lives ! 0 = JStr [s ! 0]" by (auto simp: neq_Nil_conv)
    with each have "build_route base (0, JStr [s ! 0]) = Inr (routes ! 0)" by (metis length_greater_0_conv)
    from build_route_Inr [OF this] py_get_Inr_obj show ?thesis by blast
  next
    case (JObj kvs)
    with it assms(2) have "lives \<noteq> []" and "lives ! 0 = JStr (fst (kvs ! 0))" by (auto simp: neq_Nil_conv)
    with each have "build_route base (0, JStr (fst (kvs ! 0))) = Inr (routes ! 0)" by (metis length_greater_0_conv)
    from build_route_Inr [OF this] py_get_Inr_obj show ?thesis by blast
  qed (use it in simp_all)
  with len each show ?thesis by blast
qed

lemma fetch_routes_fetched:
  assumes "fetch_routes env sa ea = (Inr (Inr f), calls)"
  shows "truthy (base_routes f) \<and> truthy (live_routes f) \<and>
         start_name f = strip (arg_or_empty sa) \<and> end_name f = strip (arg_or_empty ea)"
  using assms unfolding fetch_routes_def Let_def
  by (auto split: if_splits prod.splits sum.splits)

lemma api_route_ok:
  assumes "fetch_routes env sa ea = (Inr (Inr f), calls)"
    and "api_route env sa ea = (Inr (Routes_body s e routes, status), calls')"
  shows "assemble (base_routes f) (live_routes f) = Inr routes \<and> status = 200 \<and> calls' = calls"
  using assms unfolding api_route_def by (auto split: sum.splits)

lemma api_route_routes:
  assumes "fetch_routes env sa ea = (Inr (Inr f), calls)"
    and "api_route env sa ea = (Inr (Routes_body s e routes, status), calls')"
  shows "\<exists>lives. live_routes f = JArr lives \<and> length routes = length lives \<and>
           (\<forall>k<length lives. build_route (base_routes f) (k, lives ! k) = Inr (routes ! k))"
  using assemble_list api_route_ok [OF assms] fetch_routes_fetched [OF assms(1)] by blast

section \<open>Color mapping: the table\<close>

text \<open>
  C2, as stated for every possible input, fails on an unhashable value: the dict lookup
  of a list raises TypeError.
\<close>

theorem color_for_congestion_list_counterexample:
  "color_for_congestion (JArr []) = Inl TypeError"
  by (simp add: color_for_congestion_def)

text \<open>
  C2 (amended): for every hashable congestion value (a string, a number, a boolean or
  None) \<open>color_for_congestion\<close> returns without an exception: green for "low", orange
  for "moderate", red for "heavy", darkred for "severe", and gray for "unknown", for
  None and for any other value; the result is one of the five colors.
\<close>

theorem color_for_congestion_hashable:
  assumes "hashable c"
  shows "color_for_congestion c =
           Inr (if c = JStr ''low'' then ''green''
                else if c = JStr ''moderate'' then ''orange''
                else if c = JStr ''heavy'' then ''red''
                else if c = JStr ''severe'' then ''darkred''
                else ''gray'')
         \<and> color_for_congestion c \<in> Inr ` {''green'', ''orange'', ''red'', ''darkred'', ''gray''}"
  using assms by (simp add: color_for_congestion_def congestion_table_def)

text \<open>The table at "severe", at None and at a string that is not a key.\<close>

theorem color_for_congestion_hashable_witness:
  "hashable (JStr ''severe'') \<and> color_for_congestion (JStr ''severe'') = Inr ''darkred''
   \<and> hashable JNull \<and> color_for_congestion JNull = Inr ''gray''
   \<and> hashable (JStr ''jammed'') \<and> color_for_congestion (JStr ''jammed'') = Inr ''gray''"
  using color_for_congestion_hashable [of "JStr ''severe''"]
    color_for_congestion_hashable [of JNull]
    color_for_congestion_hashable [of "JStr ''jammed''"]
  by simp

section \<open>Validation\<close>

lemma all_dropWhile: "(\<forall>x\<in>set (dropWhile P xs). P x) \<longleftrightarrow> (\<forall>x\<in>set xs. P x)"
  by (induction xs) auto

lemma strip_Nil_iff: "strip s = [] \<longleftrightarrow> list_all isspace s"
  by (simp add: strip_def all_dropWhile list_all_iff)

lemma blank_strip: "blank a \<longleftrightarrow> strip (arg_or_empty a) = []"
proof (cases a)
  case None
  then show ?thesis by (simp add: blank_def arg_or_empty_def strip_def)
next
  case (Some s)
  then show ?thesis by (simp add: blank_def arg_or_empty_def strip_Nil_iff)
qed

text \<open>
  C7: when the start or the end parameter is missing, empty or whitespace-only, the
  route query answers 400 with the error "start and end are required", and the log of
  outbound calls is empty: neither geocoding nor directions was called.
\<close>

theorem blank_parameter_is_rejected:
  assumes "blank start_arg \<or> blank end_arg"
  shows "api_route env start_arg end_arg = (Inr (Error_body ''start and end are required'', 400), [])"
  using assms by (simp add: api_route_def fetch_routes_def blank_strip)

text \<open>The example of the interface description: an empty start and end "Mumbai".\<close>

theorem blank_parameter_is_rejected_witness:
  "(blank (Some '''') \<or> blank (Some ''Mumbai'')) \<and>
   api_route sample_provider (Some '''') (Some ''Mumbai'') =
     (Inr (Error_body ''start and end are required'', 400), [])"
proof -
  have b: "blank (Some '''') \<or> blank (Some ''Mumbai'')" by (simp add: blank_def)
  from b blank_parameter_is_rejected [OF b, of sample_provider] show ?thesis by simp
qed

section \<open>Evaluating double arithmetic\<close>

text \<open>
  Rules that compute the floor of a fraction of numerals and the bit length of a
  numeral, and with them the operations on doubles at given values.
\<close>

lemma floor_fraction:
  "\<lfloor>numeral a / numeral b :: rat\<rfloor> = numeral a div numeral b"
  "\<lfloor>- (numeral a / numeral b) :: rat\<rfloor> = - numeral a div numeral b"
  "\<lfloor>1 / numeral b :: rat\<rfloor> = 1 div numeral b"
  "\<lfloor>- (1 / numeral b) :: rat\<rfloor> = - 1 div numeral b"
  using floor_divide_of_int_eq [of "numeral a" "numeral b", where ?'a = rat]
    floor_divide_of_int_eq [of "- numeral a" "numeral b", where ?'a = rat]
    floor_divide_of_int_eq [of 1 "numeral b", where ?'a = rat]
    floor_divide_of_int_eq [of "- 1" "numeral b", where ?'a = rat]
  by simp_all

lemma bitlen_numeral:
  "bitlen (numeral k) = bitlen (numeral k div 2) + 1"
  "bitlen 1 = 1"
  by (subst compute_bitlen, simp)+

lemma bitlen_eqI:
  assumes "0 < k" and "2 ^ nat (k - 1) \<le> x" and "x < 2 ^ nat k"
  shows "bitlen x = k"
proof -
  have "(0::int) < 2 ^ nat (k - 1)" by simp
  with assms(2) have x: "0 < x" by linarith
  from bitlen_bounds [OF x] have lo: "2 ^ nat (bitlen x - 1) \<le> x" and hi: "x < 2 ^ nat (bitlen x)"
    by simp_all
  have pos: "0 < bitlen x" using x by (simp add: bitlen_alt_def)
  have "(2::int) ^ nat (k - 1) < 2 ^ nat (bitlen x)" using assms(2) hi by linarith
  then have 1: "nat (k - 1) < nat (bitlen x)" by (simp add: power_strict_increasing_iff)
  have "(2::int) ^ nat (bitlen x - 1) < 2 ^ nat k" using lo assms(3) by linarith
  then have 2: "nat (bitlen x - 1) < nat k" by (simp add: power_strict_increasing_iff)
  from 1 2 assms(1) pos show ?thesis by linarith
qed

lemmas double_eval =
  floor_fraction bitlen_numeral ceiling_def nearest_double_def binade_def pow2_def
  round_half_even_def Let_def float_sub_def float_mul_def three_point_six_def py_round1_def
  double_of_int_def

text \<open>The constant 3.6, and an int beyond the range of the doubles.\<close>

lemma three_point_six_nearest: "nearest_double (36 / 10) = three_point_six"
  by (simp add: double_eval)

lemma nearest_double_overflow: "nearest_double (rat_of_int (2 ^ 1024)) = PosInf"
proof -
  have "bitlen (2 ^ 1024) = 1025" by (rule bitlen_eqI; simp)
  then have b: "bitlen \<lfloor>\<bar>rat_of_int (2 ^ 1024)\<bar>\<rfloor> = 1025"
    by (simp del: of_int_power add: floor_of_int [of "2 ^ 1024", where ?'a = rat, simplified])
  have "1 \<le> \<bar>rat_of_int (2 ^ 1024)\<bar>" by simp
  then have e: "binade \<bar>rat_of_int (2 ^ 1024)\<bar> = 1024"
    unfolding binade_def using b by simp
  show ?thesis
    unfolding nearest_double_def Let_def e
    by (simp add: pow2_def round_half_even_def Let_def)
qed

text \<open>
  The subtraction and the rounding of line 118 at values where the rounding of the
  double difference shows: \<^verbatim>\<open>3.0 - 0.49999999999999994\<close> is \<^verbatim>\<open>2.5\<close> and rounds to 2;
  \<^verbatim>\<open>2.0 ** 55 - 2.5\<close> is \<^verbatim>\<open>2.0 ** 55 - 4\<close>; the difference of the two largest doubles
  of opposite sign is an infinity, which \<^verbatim>\<open>round\<close> refuses; an int beyond the doubles
  cannot be subtracted from a float.
\<close>

lemma build_durations_values:
  "build_durations (JFloat (Finite 3)) (JFloat (Finite (9007199254740991 / 18014398509481984))) =
     Inr \<lparr>base_s = 0, traffic_s = 3, delay_s = 2\<rparr>"
  "build_durations (JFloat (Finite (2 ^ 55))) (JFloat (Finite (5 / 2))) =
     Inr \<lparr>base_s = 2, traffic_s = 2 ^ 55, delay_s = 2 ^ 55 - 4\<rparr>"
  "build_durations (JFloat (Finite (11 / 8))) (JFloat (Finite (5 / 8))) =
     Inr \<lparr>base_s = 1, traffic_s = 1, delay_s = 1\<rparr>"
  "build_durations (JInt 250) (JInt 100) = Inr \<lparr>base_s = 100, traffic_s = 250, delay_s = 150\<rparr>"
  "build_durations (JInt 100) (JFloat (Finite (501 / 2))) =
     Inr \<lparr>base_s = 250, traffic_s = 100, delay_s = 0\<rparr>"
  "build_durations (JInt 0) (JInt 0) = Inr \<lparr>base_s = 0, traffic_s = 0, delay_s = 0\<rparr>"
  by (simp_all add: build_durations_def py_sub_def and_then_def double_eval)

lemma build_durations_errors:
  "build_durations (JFloat (Finite (2 ^ 1023))) (JFloat (Finite (- (2 ^ 1023)))) = Inl OverflowError"
  "build_durations (JInt (2 ^ 1024)) (JFloat (Finite 1)) = Inl OverflowError"
  "build_durations (JFloat NaN) (JFloat (Finite 1)) = Inl ValueError"
  "build_durations (JStr ''90'') (JInt 60) = Inl TypeError"
proof -
  have "bitlen (2 ^ 1024) = 1025" by (rule bitlen_eqI; simp)
  then show "build_durations (JFloat (Finite (2 ^ 1023))) (JFloat (Finite (- (2 ^ 1023)))) =
      Inl OverflowError"
    by (simp add: build_durations_def py_sub_def and_then_def float_sub_def nearest_double_def
        binade_def pow2_def round_half_even_def Let_def)
  show "build_durations (JInt (2 ^ 1024)) (JFloat (Finite 1)) = Inl OverflowError"
    using nearest_double_overflow
    by (simp add: build_durations_def py_sub_def and_then_def double_of_int_def del: of_int_power)
  show "build_durations (JFloat NaN) (JFloat (Finite 1)) = Inl ValueError"
    by (simp add: build_durations_def py_sub_def and_then_def float_sub_def)
  show "build_durations (JStr ''90'') (JInt 60) = Inl TypeError"
    by (simp add: build_durations_def py_sub_def and_then_def)
qed

text \<open>
  Line 114 at 0.125, 0.875, 2.125 and 12.5 m/s (0.5, 3.1, 7.7 and 45.0 km/h, each the
  double nearest to the decimal), at an int, at a boolean, at a negative zero, and at
  an int beyond the doubles.
\<close>

lemma speed_kmh_of_values:
  "speed_kmh_of (JFloat (Finite (1 / 8))) = Inr (JFloat (Finite (1 / 2)))"
  "speed_kmh_of (JFloat (Finite (7 / 8))) =
     Inr (JFloat (Finite (6980579422424269 / 2251799813685248)))"
  "speed_kmh_of (JFloat (Finite (17 / 8))) =
     Inr (JFloat (Finite (8669429282688205 / 1125899906842624)))"
  "speed_kmh_of (JFloat (Finite (25 / 2))) = Inr (JFloat (Finite 45))"
  "speed_kmh_of (JInt 10) = Inr (JFloat (Finite 36))"
  "speed_kmh_of (JBool True) = Inr (JFloat (Finite (8106479329266893 / 2251799813685248)))"
  "speed_kmh_of (JFloat NegZero) = Inr (JFloat NegZero)"
  "speed_kmh_of (JStr ''fast'') = Inr JNull"
  "speed_kmh_of JNull = Inr JNull"
  by (simp_all add: speed_kmh_of_def and_then_def double_eval)

lemma speed_kmh_of_overflow: "speed_kmh_of (JInt (2 ^ 1024)) = Inl OverflowError"
  using nearest_double_overflow
  by (simp add: speed_kmh_of_def and_then_def double_of_int_def del: of_int_power)

section \<open>The sample exchange, evaluated\<close>

lemma strip_Delhi: "strip ('' Delhi '') = ''Delhi''"
  by (simp add: strip_def isspace_def)

lemma strip_Agra: "strip ''Agra'' = ''Agra''"
  by (simp add: strip_def isspace_def)

lemma sample_fetch:
  "fetch_routes sample_provider (Some '' Delhi '') (Some ''Agra'') = (Inr (Inr sample_fetched), sample_calls)"
  by (simp add: fetch_routes_def Let_def arg_or_empty_def strip_Delhi strip_Agra geocode_place_def
      http_get_json_def sample_provider_def sample_feature_def geocode_result_def and_then_def
      py_unpack2_def mapbox_directions_def sample_base_def sample_live_def sample_fetched_def
      sample_calls_def)

lemma sample_assemble:
  "assemble (base_routes sample_fetched) (live_routes sample_fetched) = Inr sample_routes"
  by (simp add: sample_fetched_def assemble_def enumerate_eq_zip build_route_def
      sample_live_route_def base_duration_for_def first_leg_def py_or_def annotation_array_def
      route_coords_def build_segments_def build_segment_def py_unpack2_def aligned_entry_def
      color_for_congestion_def congestion_table_def speed_kmh_of_values build_durations_values
      sample_routes_def upt_rec and_then_def)

lemma sample_api_route:
  "api_route sample_provider (Some '' Delhi '') (Some ''Agra'') = (Inr sample_response, sample_calls)"
  by (simp add: api_route_def sample_fetch sample_assemble sample_response_def)
    (simp add: sample_fetched_def)

lemma sample_api_route_body:
  "api_route sample_provider (Some '' Delhi '') (Some ''Agra'') =
      (Inr (Routes_body
             \<lparr>place_name = ''Delhi'', place_lat = JFloat (Finite (229 / 8)),
               place_lon = JFloat (Finite (309 / 4))\<rparr>
             \<lparr>place_name = ''Agra'', place_lat = JFloat (Finite (217 / 8)),
               place_lon = JFloat (Finite 78)\<rparr>
             sample_routes, 200), sample_calls)"
  using sample_api_route by (simp add: sample_response_def)

text \<open>The sample provider answering both directions queries with one duration each.\<close>

lemma duration_only_fetch:
  "fetch_routes (sample_provider_with (duration_only_reply b) (duration_only_reply l))
     (Some ''Delhi'') (Some ''Agra'') =
     (Inr (Inr \<lparr>start_name = ''Delhi'', end_name = ''Agra'',
                 lat1 = JFloat (Finite (229 / 8)), lon1 = JFloat (Finite (309 / 4)),
                 lat2 = JFloat (Finite (217 / 8)), lon2 = JFloat (Finite 78),
                 base_routes = JArr [JObj [(''duration'', b)]],
                 live_routes = JArr [JObj [(''duration'', l)]]\<rparr>), sample_calls)"
  by (simp add: fetch_routes_def Let_def arg_or_empty_def strip_def isspace_def geocode_place_def
      http_get_json_def sample_provider_with_def sample_feature_def geocode_result_def
      and_then_def py_unpack2_def mapbox_directions_def duration_only_reply_def sample_calls_def)

lemma duration_only_api_route:
  assumes "build_durations l b = Inr ds"
  shows "api_route (sample_provider_with (duration_only_reply b) (duration_only_reply l))
     (Some ''Delhi'') (Some ''Agra'') =
     (Inr (Routes_body
             \<lparr>place_name = ''Delhi'', place_lat = JFloat (Finite (229 / 8)),
               place_lon = JFloat (Finite (309 / 4))\<rparr>
             \<lparr>place_name = ''Agra'', place_lat = JFloat (Finite (217 / 8)),
               place_lon = JFloat (Finite 78)\<rparr>
             [\<lparr>route_id = 0, route_distance_m = JInt 0, route_durations = ds,
               route_segments = []\<rparr>], 200), sample_calls)"
  using assms
  by (simp add: api_route_def duration_only_fetch assemble_def enumerate_eq_zip build_route_def
      base_duration_for_def first_leg_def py_or_def annotation_array_def route_coords_def
      build_segments_def and_then_def)

section \<open>Routes and segments\<close>

lemma build_segment_Inr:
  assumes "build_segment cg sp sd coords i = Inr seg"
  shows "\<exists>va vb lon_a lat_a lon_b lat_b cong speed_ms dur_s col speed_kmh.
           py_getitem_idx coords i = Inr va \<and> py_unpack2 va = Inr (lon_a, lat_a) \<and>
           py_getitem_idx coords (i + 1) = Inr vb \<and> py_unpack2 vb = Inr (lon_b, lat_b) \<and>
           aligned_entry cg i = Inr cong \<and>
           aligned_entry sp i = Inr speed_ms \<and>
           aligned_entry sd i = Inr dur_s \<and>
           color_for_congestion cong = Inr col \<and>
           speed_kmh_of speed_ms = Inr speed_kmh \<and>
           seg = \<lparr>seg_coords = ((lat_a, lon_a), (lat_b, lon_b)), seg_congestion = cong,
                   seg_color = col, seg_speed_kmh = speed_kmh,
                   seg_duration_s = dur_s\<rparr>"
  using assms by (simp add: build_segment_def and_then_Inr) blast

lemma build_segment_coords:
  assumes "build_segment cg sp sd coords i = Inr seg"
  shows "\<exists>va vb lon_a lat_a lon_b lat_b.
           py_getitem_idx coords i = Inr va \<and> py_unpack2 va = Inr (lon_a, lat_a) \<and>
           py_getitem_idx coords (i + 1) = Inr vb \<and> py_unpack2 vb = Inr (lon_b, lat_b) \<and>
           seg_coords seg = ((lat_a, lon_a), (lat_b, lon_b))"
  using build_segment_Inr [OF assms] by force

text \<open>
  C1: when validation, geocoding and both directions queries go through (the handler
  reaches the assembler with what it fetched) and the handler answers with the routes
  body, the live-traffic route collection is a list, the routes array has as many
  entries as that list, and route \<open>k\<close> has one segment per pair of consecutive
  vertices of the geometry of live route \<open>k\<close>: \<open>n - 1\<close> segments for \<open>n\<close> vertices (none
  when the geometry is empty), segment \<open>i\<close> holding vertices \<open>i\<close> and \<open>i + 1\<close>, each
  vertex unpacked as (lon, lat) and stored as (lat, lon).
\<close>

theorem routes_follow_live_geometry:
  assumes fetched: "fetch_routes env start_arg end_arg = (Inr (Inr f), calls)"
    and ok: "api_route env start_arg end_arg = (Inr (Routes_body s e routes, status), calls')"
  shows "\<exists>lives. live_routes f = JArr lives \<and> length routes = length lives \<and>
           (\<forall>k<length lives. \<exists>coords n.
              route_coords (lives ! k) = Inr coords \<and> py_len coords = Inr n \<and>
              length (route_segments (routes ! k)) = n - 1 \<and>
              (\<forall>i<n - 1. \<exists>va vb lon_a lat_a lon_b lat_b.
                 py_getitem_idx coords i = Inr va \<and> py_unpack2 va = Inr (lon_a, lat_a) \<and>
                 py_getitem_idx coords (i + 1) = Inr vb \<and> py_unpack2 vb = Inr (lon_b, lat_b) \<and>
                 seg_coords (route_segments (routes ! k) ! i) = ((lat_a, lon_a), (lat_b, lon_b))))"
proof -
  from api_route_routes [OF fetched ok] obtain lives where
    live: "live_routes f = JArr lives" and len: "length routes = length lives" and
    each: "\<forall>k<length lives. build_route (base_routes f) (k, lives ! k) = Inr (routes ! k)"
    by blast
  have "\<exists>coords n.
          route_coords (lives ! k) = Inr coords \<and> py_len coords = Inr n \<and>
          length (route_segments (routes ! k)) = n - 1 \<and>
          (\<forall>i<n - 1. \<exists>va vb lon_a lat_a lon_b lat_b.
             py_getitem_idx coords i = Inr va \<and> py_unpack2 va = Inr (lon_a, lat_a) \<and>
             py_getitem_idx coords (i + 1) = Inr vb \<and> py_unpack2 vb = Inr (lon_b, lat_b) \<and>
             seg_coords (route_segments (routes ! k) ! i) = ((lat_a, lon_a), (lat_b, lon_b)))"
    if k: "k < length lives" for k
  proof -
    from each k have "build_route (base_routes f) (k, lives ! k) = Inr (routes ! k)" by simp
    from build_route_Inr [OF this] obtain cg sp sd coords segs where
      coords: "route_coords (lives ! k) = Inr coords" and
      segs: "build_segments cg sp sd coords = Inr segs" and
      rs: "route_segments (routes ! k) = segs"
      by force
    from build_segments_Inr [OF segs] obtain n where
      n: "py_len coords = Inr n" and seglen: "length segs = n - 1" and
      seg: "\<forall>i<n - 1. build_segment cg sp sd coords i = Inr (segs ! i)"
      by blast
    show ?thesis
      using coords n seglen rs seg build_segment_coords by blast
  qed
  with live len show ?thesis by blast
qed

text \<open>
  The sample exchange: two live routes give two payload entries; the four vertices of
  the first give three segments, the second of them from vertices 1 and 2; the route
  without geometry has no segment.
\<close>

theorem routes_follow_live_geometry_witness:
  "fetch_routes sample_provider (Some '' Delhi '') (Some ''Agra'') =
     (Inr (Inr sample_fetched), sample_calls) \<and>
   api_route sample_provider (Some '' Delhi '') (Some ''Agra'') =
     (Inr sample_response, sample_calls) \<and>
   length sample_routes = 2 \<and>
   length (route_segments (sample_routes ! 0)) = 4 - 1 \<and>
   seg_coords (route_segments (sample_routes ! 0) ! 1) = ((JInt 27, JInt 78), (JInt 26, JInt 78)) \<and>
   length (route_segments (sample_routes ! 1)) = 0"
proof -
  have resp: "api_route sample_provider (Some '' Delhi '') (Some ''Agra'') =
      (Inr (Routes_body
             \<lparr>place_name = ''Delhi'', place_lat = JFloat (Finite (229 / 8)), place_lon = JFloat (Finite (309 / 4))\<rparr>
             \<lparr>place_name = ''Agra'', place_lat = JFloat (Finite (217 / 8)), place_lon = JFloat (Finite 78)\<rparr>
             sample_routes, 200), sample_calls)"
    using sample_api_route by (simp add: sample_response_def)
  from routes_follow_live_geometry [OF sample_fetch resp] obtain lives where
    live: "live_routes sample_fetched = JArr lives" and len: "length sample_routes = length lives" and
    each: "\<forall>k<length lives. \<exists>coords n.
              route_coords (lives ! k) = Inr coords \<and> py_len coords = Inr n \<and>
              length (route_segments (sample_routes ! k)) = n - 1 \<and>
              (\<forall>i<n - 1. \<exists>va vb lon_a lat_a lon_b lat_b.
                 py_getitem_idx coords i = Inr va \<and> py_unpack2 va = Inr (lon_a, lat_a) \<and>
                 py_getitem_idx coords (i + 1) = Inr vb \<and> py_unpack2 vb = Inr (lon_b, lat_b) \<and>
                 seg_coords (route_segments (sample_routes ! k) ! i) = ((lat_a, lon_a), (lat_b, lon_b)))"
    by blast
  from live have lives: "lives = [sample_live_route, JObj []]" by (simp add: sample_fetched_def)
  have l2: "length sample_routes = 2" using len lives by simp
  from each lives obtain coords n where
    c0: "route_coords sample_live_route = Inr coords" and n0: "py_len coords = Inr n" and
    s0: "length (route_segments (sample_routes ! 0)) = n - 1" and
    v0: "\<forall>i<n - 1. \<exists>va vb lon_a lat_a lon_b lat_b.
                 py_getitem_idx coords i = Inr va \<and> py_unpack2 va = Inr (lon_a, lat_a) \<and>
                 py_getitem_idx coords (i + 1) = Inr vb \<and> py_unpack2 vb = Inr (lon_b, lat_b) \<and>
                 seg_coords (route_segments (sample_routes ! 0) ! i) = ((lat_a, lon_a), (lat_b, lon_b))"
    by force
  from c0 have coords: "coords = JArr [JArr [JInt 77, JInt 28], JArr [JInt 78, JInt 27],
      JArr [JInt 78, JInt 26], JArr [JInt 79, JInt 26]]"
    by (simp add: route_coords_def sample_live_route_def and_then_def)
  with n0 have n: "n = 4" by simp
  from v0 n have "\<exists>va vb lon_a lat_a lon_b lat_b.
                 py_getitem_idx coords 1 = Inr va \<and> py_unpack2 va = Inr (lon_a, lat_a) \<and>
                 py_getitem_idx coords (1 + 1) = Inr vb \<and> py_unpack2 vb = Inr (lon_b, lat_b) \<and>
                 seg_coords (route_segments (sample_routes ! 0) ! 1) = ((lat_a, lon_a), (lat_b, lon_b))"
    by simp
  then have seg1: "seg_coords (route_segments (sample_routes ! 0) ! 1) = ((JInt 27, JInt 78), (JInt 26, JInt 78))"
    by (auto simp: coords py_unpack2_def and_then_def)
  from each lives obtain coords1 n1 where
    c1: "route_coords (JObj []) = Inr coords1" and n1: "py_len coords1 = Inr n1" and
    s1: "length (route_segments (sample_routes ! 1)) = n1 - 1"
    by force
  from c1 n1 have "n1 = 0" by (auto simp: route_coords_def and_then_def)
  with s1 l2 s0 n seg1 sample_fetch sample_api_route show ?thesis by simp
qed

section \<open>Durations and delay\<close>

lemma build_durations_Inr:
  assumes "build_durations live_duration base_duration = Inr ds"
  shows "\<exists>diff r b t.
           py_sub live_duration base_duration = Inr diff \<and> py_round diff = Inr r \<and>
           py_round base_duration = Inr b \<and> py_round live_duration = Inr t \<and>
           ds = \<lparr>base_s = b, traffic_s = t, delay_s = max 0 r\<rparr>"
  using assms unfolding build_durations_def and_then_Inr by blast

lemma base_duration_for_Inr:
  assumes "base_duration_for base k live_duration = Inr base_duration"
  shows "\<exists>n. py_len base = Inr n \<and>
           (k < n \<longrightarrow> (\<exists>b. py_getitem_idx base k = Inr b \<and>
                            py_getitem_key b ''duration'' = Inr base_duration)) \<and>
           (n \<le> k \<longrightarrow> base_duration = live_duration)"
  using assms unfolding base_duration_for_def and_then_Inr
  by (auto split: if_splits simp: and_then_Inr)

text \<open>The difference of two ints is exact; that of two finite doubles is rounded once.\<close>

lemma py_sub_ints: "py_sub (JInt a) (JInt b) = Inr (JInt (a - b))"
  by (simp add: py_sub_def)

lemma py_sub_finite:
  "x \<noteq> y \<Longrightarrow> py_sub (JFloat (Finite x)) (JFloat (Finite y)) = Inr (JFloat (nearest_double (x - y)))"
  by (simp add: py_sub_def and_then_def float_sub_def)

text \<open>A float minus itself is \<^verbatim>\<open>0.0\<close>, or NaN, which \<^verbatim>\<open>round\<close> refuses.\<close>

lemma float_sub_same: "float_sub x x = Finite 0 \<or> float_sub x x = NaN"
  by (cases x) (simp_all add: float_sub_def)

lemma build_durations_same:
  assumes "build_durations d d = Inr ds"
  shows "base_s ds = traffic_s ds \<and> delay_s ds = 0"
proof -
  from build_durations_Inr [OF assms] obtain diff r b t where
    sub: "py_sub d d = Inr diff" and r: "py_round diff = Inr r" and
    b: "py_round d = Inr b" and t: "py_round d = Inr t" and
    ds: "ds = \<lparr>base_s = b, traffic_s = t, delay_s = max 0 r\<rparr>"
    by blast
  have "diff = JFloat (Finite 0) \<or> diff = JFloat NaN \<or> diff = JInt 0"
  proof (cases "is_float d")
    case True
    then obtain x where "d = JFloat x" by (cases d) simp_all
    with sub float_sub_same [of x] show ?thesis
      by (auto simp: py_sub_def and_then_def)
  next
    case False
    with sub show ?thesis by (auto simp: py_sub_def split: if_splits)
  qed
  with r have "r = 0" by (auto simp: round_half_even_def)
  with b t ds show ?thesis by simp
qed

text \<open>
  C3: in a successful response, route \<open>k\<close> has
  \<open>delay_s = max 0 (round (live_duration - base_duration))\<close>, where \<open>live_duration\<close> is
  the duration field of live route \<open>k\<close> (0 when the field is missing) and
  \<open>base_duration\<close> is the duration of baseline route \<open>k\<close>, the one at the same position
  (the live duration itself where the baseline list is shorter). The difference is
  taken on the unrounded durations, as Python takes it: exact for two ints, the
  difference of doubles when one is a float (an int converted first), which is the
  nearest double to the exact difference for two different finite floats; \<open>round\<close>
  leaves an int as it is and rounds a float to the nearest int, ties to even. So
  \<open>delay_s\<close> is never negative.
\<close>

theorem delay_is_clamped_rounded_difference:
  assumes fetched: "fetch_routes env start_arg end_arg = (Inr (Inr f), calls)"
    and ok: "api_route env start_arg end_arg = (Inr (Routes_body s e routes, status), calls')"
  shows "\<exists>lives. live_routes f = JArr lives \<and>
           (\<forall>k<length lives. \<exists>live_duration base_duration n diff r.
              py_get (lives ! k) ''duration'' (JInt 0) = Inr live_duration \<and>
              py_len (base_routes f) = Inr n \<and>
              (k < n \<longrightarrow> (\<exists>b. py_getitem_idx (base_routes f) k = Inr b \<and>
                               py_getitem_key b ''duration'' = Inr base_duration)) \<and>
              (n \<le> k \<longrightarrow> base_duration = live_duration) \<and>
              py_sub live_duration base_duration = Inr diff \<and>
              (\<forall>a b. live_duration = JInt a \<and> base_duration = JInt b \<longrightarrow> diff = JInt (a - b)) \<and>
              (\<forall>x y. live_duration = JFloat (Finite x) \<and> base_duration = JFloat (Finite y) \<and>
                     x \<noteq> y \<longrightarrow> diff = JFloat (nearest_double (x - y))) \<and>
              (is_float live_duration \<or> is_float base_duration \<longrightarrow>
                 (\<exists>x y. as_double live_duration = Inr x \<and> as_double base_duration = Inr y \<and>
                        diff = JFloat (float_sub x y))) \<and>
              py_round diff = Inr r \<and>
              (\<forall>d. diff = JInt d \<longrightarrow> r = d) \<and>
              (\<forall>z. diff = JFloat (Finite z) \<longrightarrow> r = round_half_even z) \<and>
              delay_s (route_durations (routes ! k)) = max 0 r \<and>
              0 \<le> delay_s (route_durations (routes ! k)))"
proof -
  from api_route_routes [OF fetched ok] obtain lives where
    live: "live_routes f = JArr lives" and
    each: "\<forall>k<length lives. build_route (base_routes f) (k, lives ! k) = Inr (routes ! k)"
    by blast
  have "\<exists>live_duration base_duration n diff r.
              py_get (lives ! k) ''duration'' (JInt 0) = Inr live_duration \<and>
              py_len (base_routes f) = Inr n \<and>
              (k < n \<longrightarrow> (\<exists>b. py_getitem_idx (base_routes f) k = Inr b \<and>
                               py_getitem_key b ''duration'' = Inr base_duration)) \<and>
              (n \<le> k \<longrightarrow> base_duration = live_duration) \<and>
              py_sub live_duration base_duration = Inr diff \<and>
              (\<forall>a b. live_duration = JInt a \<and> base_duration = JInt b \<longrightarrow> diff = JInt (a - b)) \<and>
              (\<forall>x y. live_duration = JFloat (Finite x) \<and> base_duration = JFloat (Finite y) \<and>
                     x \<noteq> y \<longrightarrow> diff = JFloat (nearest_double (x - y))) \<and>
              (is_float live_duration \<or> is_float base_duration \<longrightarrow>
                 (\<exists>x y. as_double live_duration = Inr x \<and> as_double base_duration = Inr y \<and>
                        diff = JFloat (float_sub x y))) \<and>
              py_round diff = Inr r \<and>
              (\<forall>d. diff = JInt d \<longrightarrow> r = d) \<and>
              (\<forall>z. diff = JFloat (Finite z) \<longrightarrow> r = round_half_even z) \<and>
              delay_s (route_durations (routes ! k)) = max 0 r \<and>
              0 \<le> delay_s (route_durations (routes ! k))"
    if k: "k < length lives" for k
  proof -
    from each k have "build_route (base_routes f) (k, lives ! k) = Inr (routes ! k)" by simp
    from build_route_Inr [OF this] obtain live_duration base_duration ds where
      ld: "py_get (lives ! k) ''duration'' (JInt 0) = Inr live_duration" and
      bd: "base_duration_for (base_routes f) k live_duration = Inr base_duration" and
      ds: "build_durations live_duration base_duration = Inr ds" and
      rd: "route_durations (routes ! k) = ds"
      by force
    from build_durations_Inr [OF ds] obtain diff r where
      sub: "py_sub live_duration base_duration = Inr diff" and
      r: "py_round diff = Inr r" and
      d: "delay_s ds = max 0 r"
      by force
    from base_duration_for_Inr [OF bd] obtain n where
      n: "py_len (base_routes f) = Inr n" and
      paired: "k < n \<longrightarrow> (\<exists>b. py_getitem_idx (base_routes f) k = Inr b \<and>
                               py_getitem_key b ''duration'' = Inr base_duration)" and
      fallback: "n \<le> k \<longrightarrow> base_duration = live_duration"
      by blast
    have ints: "\<forall>a b. live_duration = JInt a \<and> base_duration = JInt b \<longrightarrow> diff = JInt (a - b)"
      using sub py_sub_ints by auto
    have floats: "\<forall>x y. live_duration = JFloat (Finite x) \<and> base_duration = JFloat (Finite y) \<and>
        x \<noteq> y \<longrightarrow> diff = JFloat (nearest_double (x - y))"
      using sub py_sub_finite by auto
    have mixed: "is_float live_duration \<or> is_float base_duration \<longrightarrow>
        (\<exists>x y. as_double live_duration = Inr x \<and> as_double base_duration = Inr y \<and>
               diff = JFloat (float_sub x y))"
      using sub by (auto simp: py_sub_def and_then_Inr split: if_splits)
    have r_int: "\<forall>d. diff = JInt d \<longrightarrow> r = d" using r by auto
    have r_float: "\<forall>z. diff = JFloat (Finite z) \<longrightarrow> r = round_half_even z" using r by auto
    have del: "delay_s (route_durations (routes ! k)) = max 0 r" using d rd by simp
    then have nonneg: "0 \<le> delay_s (route_durations (routes ! k))" by simp
    from ld n paired fallback sub ints floats mixed r r_int r_float del nonneg
    show ?thesis by blast
  qed
  with live show ?thesis by blast
qed

text \<open>
  The sample provider with a live duration of 3.0 s against a baseline of
  0.49999999999999994 s, the largest double below one half. The exact difference is
  above 2.5; the double difference is 2.5, and \<open>delay_s\<close> is 2.
\<close>

theorem delay_is_clamped_rounded_difference_witness:
  "api_route (sample_provider_with
       (duration_only_reply (JFloat (Finite (9007199254740991 / 18014398509481984))))
       (duration_only_reply (JFloat (Finite 3))))
     (Some ''Delhi'') (Some ''Agra'') =
     (Inr (Routes_body
             \<lparr>place_name = ''Delhi'', place_lat = JFloat (Finite (229 / 8)),
               place_lon = JFloat (Finite (309 / 4))\<rparr>
             \<lparr>place_name = ''Agra'', place_lat = JFloat (Finite (217 / 8)),
               place_lon = JFloat (Finite 78)\<rparr>
             [\<lparr>route_id = 0, route_distance_m = JInt 0,
               route_durations = \<lparr>base_s = 0, traffic_s = 3, delay_s = 2\<rparr>,
               route_segments = []\<rparr>], 200), sample_calls) \<and>
   nearest_double (3 - 9007199254740991 / 18014398509481984) = Finite (5 / 2) \<and>
   round_half_even (5 / 2) = 2 \<and>
   (2::int) = max 0 (round_half_even (5 / 2))"
proof -
  let ?b = "JFloat (Finite (9007199254740991 / 18014398509481984))"
  let ?l = "JFloat (Finite 3)"
  let ?routes = "[\<lparr>route_id = 0, route_distance_m = JInt 0,
               route_durations = \<lparr>base_s = 0, traffic_s = 3, delay_s = 2\<rparr>,
               route_segments = []\<rparr>]"
  note resp = duration_only_api_route [OF build_durations_values(1)]
  from delay_is_clamped_rounded_difference [OF duration_only_fetch resp]
  obtain lives where
    live: "JArr [JObj [(''duration'', ?l)]] = JArr lives" and
    each: "\<forall>k<length lives. \<exists>live_duration base_duration n diff r.
              py_get (lives ! k) ''duration'' (JInt 0) = Inr live_duration \<and>
              py_len (JArr [JObj [(''duration'', ?b)]]) = Inr n \<and>
              (k < n \<longrightarrow> (\<exists>b. py_getitem_idx (JArr [JObj [(''duration'', ?b)]]) k = Inr b \<and>
                               py_getitem_key b ''duration'' = Inr base_duration)) \<and>
              (n \<le> k \<longrightarrow> base_duration = live_duration) \<and>
              py_sub live_duration base_duration = Inr diff \<and>
              (\<forall>a b. live_duration = JInt a \<and> base_duration = JInt b \<longrightarrow> diff = JInt (a - b)) \<and>
              (\<forall>x y. live_duration = JFloat (Finite x) \<and> base_duration = JFloat (Finite y) \<and>
                     x \<noteq> y \<longrightarrow> diff = JFloat (nearest_double (x - y))) \<and>
              (is_float live_duration \<or> is_float base_duration \<longrightarrow>
                 (\<exists>x y. as_double live_duration = Inr x \<and> as_double base_duration = Inr y \<and>
                        diff = JFloat (float_sub x y))) \<and>
              py_round diff = Inr r \<and>
              (\<forall>d. diff = JInt d \<longrightarrow> r = d) \<and>
              (\<forall>z. diff = JFloat (Finite z) \<longrightarrow> r = round_half_even z) \<and>
              delay_s (route_durations (?routes ! k)) = max 0 r \<and>
              0 \<le> delay_s (route_durations (?routes ! k))"
    by auto
  from live have lives: "lives = [JObj [(''duration'', ?l)]]" by simp
  then have "0 < length lives" by simp
  from each [rule_format, OF this] obtain live_duration base_duration n diff r where
    ld: "py_get (lives ! 0) ''duration'' (JInt 0) = Inr live_duration" and
    n: "py_len (JArr [JObj [(''duration'', ?b)]]) = Inr n" and
    paired: "0 < n \<longrightarrow> (\<exists>b. py_getitem_idx (JArr [JObj [(''duration'', ?b)]]) 0 = Inr b \<and>
                               py_getitem_key b ''duration'' = Inr base_duration)" and
    floats: "\<forall>x y. live_duration = JFloat (Finite x) \<and> base_duration = JFloat (Finite y) \<and>
                     x \<noteq> y \<longrightarrow> diff = JFloat (nearest_double (x - y))" and
    r_float: "\<forall>z. diff = JFloat (Finite z) \<longrightarrow> r = round_half_even z" and
    del: "delay_s (route_durations (?routes ! 0)) = max 0 r"
    by blast
  from ld lives have 1: "live_duration = ?l" by simp
  from n have "n = 1" by simp
  with paired have 2: "base_duration = ?b" by simp
  have near: "nearest_double (3 - 9007199254740991 / 18014398509481984) = Finite (5 / 2)"
    by (simp add: double_eval)
  have ne: "(3::rat) \<noteq> 9007199254740991 / 18014398509481984" by simp
  from floats 1 2 ne
  have "diff = JFloat (nearest_double (3 - 9007199254740991 / 18014398509481984))"
    by blast
  with near r_float have r: "r = round_half_even (5 / 2)" by simp
  have half: "round_half_even (5 / 2) = 2" by (simp add: double_eval)
  from del r have final: "(2::int) = max 0 (round_half_even (5 / 2))" by simp
  show ?thesis by (intro conjI resp near half final)
qed

text \<open>
  C5: for a live route whose index \<open>k\<close> is at least the number \<open>n\<close> of baseline routes,
  line 92 returns the live route's own duration as the baseline duration, without an
  exception, so that in the response \<open>base_s = traffic_s\<close> and \<open>delay_s = 0\<close> for
  that route.
\<close>

theorem unmatched_live_route_has_zero_delay:
  assumes fetched: "fetch_routes env start_arg end_arg = (Inr (Inr f), calls)"
    and ok: "api_route env start_arg end_arg = (Inr (Routes_body s e routes, status), calls')"
    and n: "py_len (base_routes f) = Inr n"
    and k: "n \<le> k" "k < length routes"
  shows "(\<forall>d. base_duration_for (base_routes f) k d = Inr d) \<and>
         base_s (route_durations (routes ! k)) = traffic_s (route_durations (routes ! k)) \<and>
         delay_s (route_durations (routes ! k)) = 0"
proof -
  have fallback: "base_duration_for (base_routes f) k d = Inr d" for d
    using n k(1) by (simp add: base_duration_for_def and_then_def)
  from api_route_routes [OF fetched ok] obtain lives where
    len: "length routes = length lives" and
    each: "\<forall>k<length lives. build_route (base_routes f) (k, lives ! k) = Inr (routes ! k)"
    by blast
  from each k(2) len have "build_route (base_routes f) (k, lives ! k) = Inr (routes ! k)"
    by simp
  from build_route_Inr [OF this] obtain live_duration base_duration ds where
    bd: "base_duration_for (base_routes f) k live_duration = Inr base_duration" and
    ds: "build_durations live_duration base_duration = Inr ds" and
    rd: "route_durations (routes ! k) = ds"
    by force
  from bd fallback have "base_duration = live_duration" by simp
  with ds build_durations_same rd fallback show ?thesis by simp
qed

text \<open>The sample exchange has one baseline route and two live routes: route 1 is unmatched.\<close>

theorem unmatched_live_route_has_zero_delay_witness:
  "fetch_routes sample_provider (Some '' Delhi '') (Some ''Agra'') =
     (Inr (Inr sample_fetched), sample_calls) \<and>
   api_route sample_provider (Some '' Delhi '') (Some ''Agra'') =
     (Inr sample_response, sample_calls) \<and>
   py_len (base_routes sample_fetched) = Inr 1 \<and> (1::nat) \<le> 1 \<and> 1 < length sample_routes \<and>
   base_duration_for (base_routes sample_fetched) 1 (JInt 0) = Inr (JInt 0) \<and>
   base_s (route_durations (sample_routes ! 1)) = traffic_s (route_durations (sample_routes ! 1)) \<and>
   delay_s (route_durations (sample_routes ! 1)) = 0"
proof -
  have n: "py_len (base_routes sample_fetched) = Inr 1" by (simp add: sample_fetched_def)
  have k: "(1::nat) \<le> 1" "1 < length sample_routes" by (simp_all add: sample_routes_def)
  from unmatched_live_route_has_zero_delay [OF sample_fetch sample_api_route_body n k]
    n k sample_fetch sample_api_route
  show ?thesis by simp
qed

section \<open>The delay against the rounded durations\<close>

lemma build_durations_ints:
  assumes "build_durations live_duration base_duration = Inr ds"
    and "\<not> is_float live_duration" and "\<not> is_float base_duration"
  shows "delay_s ds = max 0 (traffic_s ds - base_s ds)"
proof -
  from build_durations_Inr [OF assms(1)] obtain diff r b t where
    sub: "py_sub live_duration base_duration = Inr diff" and r: "py_round diff = Inr r" and
    b: "py_round base_duration = Inr b" and t: "py_round live_duration = Inr t" and
    ds: "ds = \<lparr>base_s = b, traffic_s = t, delay_s = max 0 r\<rparr>"
    by blast
  from sub assms(2,3) have diff: "diff = JInt (int_value live_duration - int_value base_duration)"
    by (auto simp: py_sub_def split: if_splits)
  from b assms(3) have "b = int_value base_duration" by (cases base_duration) auto
  moreover from t assms(2) have "t = int_value live_duration" by (cases live_duration) auto
  moreover from r diff have "r = int_value live_duration - int_value base_duration" by simp
  ultimately show ?thesis using ds by simp
qed

text \<open>
  C4, as stated, fails: the delay is rounded from the difference of the unrounded
  durations, and the two roundings do not commute with the subtraction. In the sample
  exchange live 1.375 s and baseline 0.625 s (both doubles, with a difference that is
  a double) give \<open>traffic_s = 1\<close>, \<open>base_s = 1\<close> and \<open>delay_s = round 0.75 = 1\<close>, while
  \<open>max 0 (round (1 - 1)) = 0\<close> (\<open>round\<close> of an int is that int).
\<close>

theorem delay_from_rounded_durations_counterexample:
  "api_route sample_provider (Some '' Delhi '') (Some ''Agra'') =
     (Inr (Routes_body
             \<lparr>place_name = ''Delhi'', place_lat = JFloat (Finite (229 / 8)), place_lon = JFloat (Finite (309 / 4))\<rparr>
             \<lparr>place_name = ''Agra'', place_lat = JFloat (Finite (217 / 8)), place_lon = JFloat (Finite 78)\<rparr>
             sample_routes, 200), sample_calls) \<and>
   route_durations (sample_routes ! 0) = \<lparr>base_s = 1, traffic_s = 1, delay_s = 1\<rparr> \<and>
   delay_s (route_durations (sample_routes ! 0)) \<noteq>
     max 0 (traffic_s (route_durations (sample_routes ! 0)) - base_s (route_durations (sample_routes ! 0)))"
  using sample_api_route_body by (simp add: sample_routes_def)

text \<open>
  C4 (amended): in every successful response, each route's \<open>delay_s\<close> is
  \<open>max 0 (round (live_duration - base_duration))\<close> on the unrounded durations, and it
  equals \<open>max 0 (round (traffic_s - base_s))\<close> whenever neither the live duration nor
  the baseline duration is a float.
\<close>

theorem delay_equals_rounded_difference_of_ints:
  assumes fetched: "fetch_routes env start_arg end_arg = (Inr (Inr f), calls)"
    and ok: "api_route env start_arg end_arg = (Inr (Routes_body s e routes, status), calls')"
    and k: "k < length routes"
  shows "\<exists>lives live_duration base_duration diff r.
           live_routes f = JArr lives \<and>
           py_get (lives ! k) ''duration'' (JInt 0) = Inr live_duration \<and>
           base_duration_for (base_routes f) k live_duration = Inr base_duration \<and>
           py_sub live_duration base_duration = Inr diff \<and>
           py_round diff = Inr r \<and>
           delay_s (route_durations (routes ! k)) = max 0 r \<and>
           (\<not> is_float live_duration \<and> \<not> is_float base_duration \<longrightarrow>
              py_round (JInt (traffic_s (route_durations (routes ! k)) -
                              base_s (route_durations (routes ! k)))) =
                Inr (traffic_s (route_durations (routes ! k)) - base_s (route_durations (routes ! k))) \<and>
              delay_s (route_durations (routes ! k)) =
                max 0 (traffic_s (route_durations (routes ! k)) - base_s (route_durations (routes ! k))))"
proof -
  from api_route_routes [OF fetched ok] obtain lives where
    live: "live_routes f = JArr lives" and len: "length routes = length lives" and
    each: "\<forall>k<length lives. build_route (base_routes f) (k, lives ! k) = Inr (routes ! k)"
    by blast
  from each k len have "build_route (base_routes f) (k, lives ! k) = Inr (routes ! k)"
    by simp
  from build_route_Inr [OF this] obtain live_duration base_duration ds where
    ld: "py_get (lives ! k) ''duration'' (JInt 0) = Inr live_duration" and
    bd: "base_duration_for (base_routes f) k live_duration = Inr base_duration" and
    ds: "build_durations live_duration base_duration = Inr ds" and
    rd: "route_durations (routes ! k) = ds"
    by force
  from build_durations_Inr [OF ds] obtain diff r where
    sub: "py_sub live_duration base_duration = Inr diff" and
    r: "py_round diff = Inr r" and
    d: "delay_s ds = max 0 r"
    by force
  have ints: "\<not> is_float live_duration \<and> \<not> is_float base_duration \<longrightarrow>
      py_round (JInt (traffic_s ds - base_s ds)) = Inr (traffic_s ds - base_s ds) \<and>
      delay_s ds = max 0 (traffic_s ds - base_s ds)"
    using build_durations_ints [OF ds] by simp
  from live ld bd sub r d ints show ?thesis unfolding rd by blast
qed

text \<open>
  The sample provider with a live duration of 250 s against a baseline of 100 s, both
  ints: \<open>delay_s = 150 = max 0 (250 - 100)\<close>.
\<close>

theorem delay_equals_rounded_difference_of_ints_witness:
  "api_route (sample_provider_with (duration_only_reply (JInt 100)) (duration_only_reply (JInt 250)))
     (Some ''Delhi'') (Some ''Agra'') =
     (Inr (Routes_body
             \<lparr>place_name = ''Delhi'', place_lat = JFloat (Finite (229 / 8)),
               place_lon = JFloat (Finite (309 / 4))\<rparr>
             \<lparr>place_name = ''Agra'', place_lat = JFloat (Finite (217 / 8)),
               place_lon = JFloat (Finite 78)\<rparr>
             [\<lparr>route_id = 0, route_distance_m = JInt 0,
               route_durations = \<lparr>base_s = 100, traffic_s = 250, delay_s = 150\<rparr>,
               route_segments = []\<rparr>], 200), sample_calls) \<and>
   delay_s \<lparr>base_s = 100, traffic_s = 250, delay_s = 150\<rparr> =
     max 0 (traffic_s \<lparr>base_s = 100, traffic_s = 250, delay_s = 150\<rparr> -
            base_s \<lparr>base_s = 100, traffic_s = 250, delay_s = 150\<rparr>)"
proof -
  let ?routes = "[\<lparr>route_id = 0, route_distance_m = JInt 0,
               route_durations = \<lparr>base_s = 100, traffic_s = 250, delay_s = 150\<rparr>,
               route_segments = []\<rparr>]"
  note resp = duration_only_api_route [OF build_durations_values(4)]
  have k: "0 < length ?routes" by simp
  from delay_equals_rounded_difference_of_ints [OF duration_only_fetch resp k]
  obtain lives live_duration base_duration where
    live: "JArr [JObj [(''duration'', JInt 250)]] = JArr lives" and
    ld: "py_get (lives ! 0) ''duration'' (JInt 0) = Inr live_duration" and
    bd: "base_duration_for (JArr [JObj [(''duration'', JInt 100)]]) 0 live_duration =
           Inr base_duration" and
    ints: "\<not> is_float live_duration \<and> \<not> is_float base_duration \<longrightarrow>
      delay_s (route_durations (?routes ! 0)) =
        max 0 (traffic_s (route_durations (?routes ! 0)) - base_s (route_durations (?routes ! 0)))"
    by auto
  from live ld have 1: "live_duration = JInt 250" by auto
  from bd have 2: "base_duration = JInt 100" by (simp add: base_duration_for_def and_then_def)
  from ints 1 2 have final: "delay_s \<lparr>base_s = 100, traffic_s = 250, delay_s = 150\<rparr> =
     max 0 (traffic_s \<lparr>base_s = 100, traffic_s = 250, delay_s = 150\<rparr> -
            base_s \<lparr>base_s = 100, traffic_s = 250, delay_s = 150\<rparr>)"
    by simp
  show ?thesis by (intro conjI resp final)
qed

section \<open>Segment annotations\<close>

lemma aligned_entry_Inr:
  assumes "aligned_entry xs i = Inr v"
  shows "\<exists>n. py_len xs = Inr n \<and> (i < n \<longrightarrow> py_getitem_idx xs i = Inr v) \<and> (n \<le> i \<longrightarrow> v = JNull)"
  using assms by (auto simp: aligned_entry_def and_then_Inr split: if_splits)

lemma color_for_congestion_None: "color_for_congestion JNull = Inr ''gray''"
  by (simp add: color_for_congestion_def congestion_table_def)

text \<open>
  Line 114 on a finite float other than zero: the product with 3.6 is rounded to a
  double \<open>p\<close>, \<open>p\<close> to one decimal, and the decimal to a double.
\<close>

lemma speed_kmh_of_finite:
  assumes "m \<noteq> 0"
    and "nearest_double (m * (8106479329266893 / 2251799813685248)) = Finite p"
  shows "speed_kmh_of (JFloat (Finite m)) =
           Inr (JFloat (if round_half_even (p * 10) = 0
                        then (if p < 0 then NegZero else Finite 0)
                        else nearest_double (of_int (round_half_even (p * 10)) / 10)))"
  using assms
  by (simp add: speed_kmh_of_def and_then_def float_mul_def three_point_six_def py_round1_def
      Let_def)

lemma speed_kmh_of_Inr:
  assumes "speed_kmh_of v = Inr speed"
  shows "(isinstance_int_float v \<longrightarrow>
            (\<exists>x. as_double v = Inr x \<and> speed = JFloat (py_round1 (float_mul x three_point_six)))) \<and>
         (\<not> isinstance_int_float v \<longrightarrow> speed = JNull) \<and>
         (\<forall>m p. v = JFloat (Finite m) \<and> m \<noteq> 0 \<and>
            nearest_double (m * (8106479329266893 / 2251799813685248)) = Finite p \<longrightarrow>
            speed = JFloat (if round_half_even (p * 10) = 0
                            then (if p < 0 then NegZero else Finite 0)
                            else nearest_double (of_int (round_half_even (p * 10)) / 10)))"
proof (intro conjI allI impI)
  assume "isinstance_int_float v"
  with assms show "\<exists>x. as_double v = Inr x \<and> speed = JFloat (py_round1 (float_mul x three_point_six))"
    by (auto simp: speed_kmh_of_def and_then_Inr)
next
  assume "\<not> isinstance_int_float v"
  with assms show "speed = JNull" by (simp add: speed_kmh_of_def)
next
  fix m p
  assume "v = JFloat (Finite m) \<and> m \<noteq> 0 \<and>
            nearest_double (m * (8106479329266893 / 2251799813685248)) = Finite p"
  with assms speed_kmh_of_finite [of m p]
  show "speed = JFloat (if round_half_even (p * 10) = 0
                            then (if p < 0 then NegZero else Finite 0)
                            else nearest_double (of_int (round_half_even (p * 10)) / 10))"
    by simp
qed

lemma build_segment_annotations:
  assumes "build_segment cg sp sd coords i = Inr seg"
  shows "\<exists>nc ns nd.
                 py_len cg = Inr nc \<and> py_len sp = Inr ns \<and>
                 py_len sd = Inr nd \<and>
                 (i < ns \<longrightarrow> (\<exists>v. py_getitem_idx sp i = Inr v \<and>
                    (isinstance_int_float v \<longrightarrow>
                       (\<exists>x. as_double v = Inr x \<and>
                          seg_speed_kmh seg = JFloat (py_round1 (float_mul x three_point_six)))) \<and>
                    (\<not> isinstance_int_float v \<longrightarrow> seg_speed_kmh seg = JNull) \<and>
                    (\<forall>m p. v = JFloat (Finite m) \<and> m \<noteq> 0 \<and>
                       nearest_double (m * (8106479329266893 / 2251799813685248)) = Finite p \<longrightarrow>
                       seg_speed_kmh seg =
                         JFloat (if round_half_even (p * 10) = 0
                                 then (if p < 0 then NegZero else Finite 0)
                                 else nearest_double (of_int (round_half_even (p * 10)) / 10))))) \<and>
                 (ns \<le> i \<longrightarrow> seg_speed_kmh seg = JNull) \<and>
                 (nc \<le> i \<longrightarrow> seg_congestion seg = JNull \<and>
                            seg_color seg = ''gray'') \<and>
                 (nd \<le> i \<longrightarrow> seg_duration_s seg = JNull)"
proof -
  from build_segment_Inr [OF assms] obtain cong speed_ms dur_s col speed where
    c: "aligned_entry cg i = Inr cong" and s: "aligned_entry sp i = Inr speed_ms" and
    d: "aligned_entry sd i = Inr dur_s" and col: "color_for_congestion cong = Inr col" and
    sk: "speed_kmh_of speed_ms = Inr speed" and
    seg: "seg_congestion seg = cong" "seg_color seg = col"
         "seg_speed_kmh seg = speed" "seg_duration_s seg = dur_s"
    by force
  from aligned_entry_Inr [OF c] obtain nc where
    nc: "py_len cg = Inr nc" "nc \<le> i \<longrightarrow> cong = JNull" by blast
  from aligned_entry_Inr [OF s] obtain ns where
    ns: "py_len sp = Inr ns" "i < ns \<longrightarrow> py_getitem_idx sp i = Inr speed_ms"
      "ns \<le> i \<longrightarrow> speed_ms = JNull" by blast
  from aligned_entry_Inr [OF d] obtain nd where
    nd: "py_len sd = Inr nd" "nd \<le> i \<longrightarrow> dur_s = JNull" by blast
  have 1: "i < ns \<longrightarrow> (\<exists>v. py_getitem_idx sp i = Inr v \<and>
                    (isinstance_int_float v \<longrightarrow>
                       (\<exists>x. as_double v = Inr x \<and>
                          seg_speed_kmh seg = JFloat (py_round1 (float_mul x three_point_six)))) \<and>
                    (\<not> isinstance_int_float v \<longrightarrow> seg_speed_kmh seg = JNull) \<and>
                    (\<forall>m p. v = JFloat (Finite m) \<and> m \<noteq> 0 \<and>
                       nearest_double (m * (8106479329266893 / 2251799813685248)) = Finite p \<longrightarrow>
                       seg_speed_kmh seg =
                         JFloat (if round_half_even (p * 10) = 0
                                 then (if p < 0 then NegZero else Finite 0)
                                 else nearest_double (of_int (round_half_even (p * 10)) / 10))))"
    using ns(2) speed_kmh_of_Inr [OF sk] unfolding seg(3) by blast
  have 2: "ns \<le> i \<longrightarrow> seg_speed_kmh seg = JNull"
    using ns(3) seg(3) sk by (auto simp: speed_kmh_of_def)
  have 3: "nc \<le> i \<longrightarrow> seg_congestion seg = JNull \<and> seg_color seg = ''gray''"
    using nc(2) seg(1,2) col color_for_congestion_None by auto
  have 4: "nd \<le> i \<longrightarrow> seg_duration_s seg = JNull"
    using nd(2) seg(4) by simp
  from nc(1) ns(1) nd(1) 1 2 3 4 show ?thesis by blast
qed

text \<open>
  C9: in a successful response, segment \<open>i\<close> of route \<open>k\<close> reads the three annotation
  arrays of the first leg of live route \<open>k\<close> at index \<open>i\<close>. Its \<open>speed_kmh\<close> is
  \<open>round (speed_ms * 3.6, 1)\<close> when the speed entry exists and is an int or a float (as
  \<^verbatim>\<open>isinstance\<close> tests it, booleans included), computed on doubles: the entry as a
  double, times the double 3.6, rounded to one decimal; for a finite float other than
  zero that is the double nearest to the decimal nearest to the double nearest to the
  exact product. It is None when the entry exists and is not a number, and None when
  the speed array ends before \<open>i\<close>. The congestion is None, with color gray, when the
  congestion array ends before \<open>i\<close>; \<open>duration_s\<close> is None when the duration array ends
  before \<open>i\<close>. The color lookup of None returns gray without an exception.
\<close>

theorem segment_annotations_aligned_or_absent:
  assumes fetched: "fetch_routes env start_arg end_arg = (Inr (Inr f), calls)"
    and ok: "api_route env start_arg end_arg = (Inr (Routes_body s e routes, status), calls')"
  shows "color_for_congestion JNull = Inr ''gray'' \<and>
         (\<exists>lives. live_routes f = JArr lives \<and>
           (\<forall>k<length lives. \<exists>leg ann congestions speeds seg_durations.
              first_leg (lives ! k) = Inr leg \<and>
              py_get leg ''annotation'' (JObj []) = Inr ann \<and>
              annotation_array ann ''congestion'' = Inr congestions \<and>
              annotation_array ann ''speed'' = Inr speeds \<and>
              annotation_array ann ''duration'' = Inr seg_durations \<and>
              (\<forall>i<length (route_segments (routes ! k)). \<exists>nc ns nd.
                 py_len congestions = Inr nc \<and> py_len speeds = Inr ns \<and>
                 py_len seg_durations = Inr nd \<and>
                 (i < ns \<longrightarrow> (\<exists>v. py_getitem_idx speeds i = Inr v \<and>
                    (isinstance_int_float v \<longrightarrow>
                       (\<exists>x. as_double v = Inr x \<and>
                          seg_speed_kmh (route_segments (routes ! k) ! i) = JFloat (py_round1 (float_mul x three_point_six)))) \<and>
                    (\<not> isinstance_int_float v \<longrightarrow> seg_speed_kmh (route_segments (routes ! k) ! i) = JNull) \<and>
                    (\<forall>m p. v = JFloat (Finite m) \<and> m \<noteq> 0 \<and>
                       nearest_double (m * (8106479329266893 / 2251799813685248)) = Finite p \<longrightarrow>
                       seg_speed_kmh (route_segments (routes ! k) ! i) =
                         JFloat (if round_half_even (p * 10) = 0
                                 then (if p < 0 then NegZero else Finite 0)
                                 else nearest_double (of_int (round_half_even (p * 10)) / 10))))) \<and>
                 (ns \<le> i \<longrightarrow> seg_speed_kmh (route_segments (routes ! k) ! i) = JNull) \<and>
                 (nc \<le> i \<longrightarrow> seg_congestion (route_segments (routes ! k) ! i) = JNull \<and>
                            seg_color (route_segments (routes ! k) ! i) = ''gray'') \<and>
                 (nd \<le> i \<longrightarrow> seg_duration_s (route_segments (routes ! k) ! i) = JNull))))"
proof -
  from api_route_routes [OF fetched ok] obtain lives where
    live: "live_routes f = JArr lives" and
    each: "\<forall>k<length lives. build_route (base_routes f) (k, lives ! k) = Inr (routes ! k)"
    by blast
  have "\<exists>leg ann congestions speeds seg_durations.
              first_leg (lives ! k) = Inr leg \<and>
              py_get leg ''annotation'' (JObj []) = Inr ann \<and>
              annotation_array ann ''congestion'' = Inr congestions \<and>
              annotation_array ann ''speed'' = Inr speeds \<and>
              annotation_array ann ''duration'' = Inr seg_durations \<and>
              (\<forall>i<length (route_segments (routes ! k)). \<exists>nc ns nd.
                 py_len congestions = Inr nc \<and> py_len speeds = Inr ns \<and>
                 py_len seg_durations = Inr nd \<and>
                 (i < ns \<longrightarrow> (\<exists>v. py_getitem_idx speeds i = Inr v \<and>
                    (isinstance_int_float v \<longrightarrow>
                       (\<exists>x. as_double v = Inr x \<and>
                          seg_speed_kmh (route_segments (routes ! k) ! i) = JFloat (py_round1 (float_mul x three_point_six)))) \<and>
                    (\<not> isinstance_int_float v \<longrightarrow> seg_speed_kmh (route_segments (routes ! k) ! i) = JNull) \<and>
                    (\<forall>m p. v = JFloat (Finite m) \<and> m \<noteq> 0 \<and>
                       nearest_double (m * (8106479329266893 / 2251799813685248)) = Finite p \<longrightarrow>
                       seg_speed_kmh (route_segments (routes ! k) ! i) =
                         JFloat (if round_half_even (p * 10) = 0
                                 then (if p < 0 then NegZero else Finite 0)
                                 else nearest_double (of_int (round_half_even (p * 10)) / 10))))) \<and>
                 (ns \<le> i \<longrightarrow> seg_speed_kmh (route_segments (routes ! k) ! i) = JNull) \<and>
                 (nc \<le> i \<longrightarrow> seg_congestion (route_segments (routes ! k) ! i) = JNull \<and>
                            seg_color (route_segments (routes ! k) ! i) = ''gray'') \<and>
                 (nd \<le> i \<longrightarrow> seg_duration_s (route_segments (routes ! k) ! i) = JNull))"
    if k: "k < length lives" for k
  proof -
    from each k have "build_route (base_routes f) (k, lives ! k) = Inr (routes ! k)" by simp
    from build_route_Inr [OF this] obtain leg ann cg sp sd coords segs where
      leg: "first_leg (lives ! k) = Inr leg" and
      ann: "py_get leg ''annotation'' (JObj []) = Inr ann" and
      cg: "annotation_array ann ''congestion'' = Inr cg" and
      sp: "annotation_array ann ''speed'' = Inr sp" and
      sd: "annotation_array ann ''duration'' = Inr sd" and
      segs: "build_segments cg sp sd coords = Inr segs" and
      rs: "route_segments (routes ! k) = segs"
      by force
    from build_segments_Inr [OF segs] obtain n where
      seglen: "length segs = n - 1" and
      seg: "\<forall>i<n - 1. build_segment cg sp sd coords i = Inr (segs ! i)"
      by blast
    have "\<forall>i<length segs. build_segment cg sp sd coords i = Inr (segs ! i)"
      using seg seglen by simp
    then have "\<forall>i<length segs. \<exists>nc ns nd.
                 py_len cg = Inr nc \<and> py_len sp = Inr ns \<and>
                 py_len sd = Inr nd \<and>
                 (i < ns \<longrightarrow> (\<exists>v. py_getitem_idx sp i = Inr v \<and>
                    (isinstance_int_float v \<longrightarrow>
                       (\<exists>x. as_double v = Inr x \<and>
                          seg_speed_kmh (segs ! i) = JFloat (py_round1 (float_mul x three_point_six)))) \<and>
                    (\<not> isinstance_int_float v \<longrightarrow> seg_speed_kmh (segs ! i) = JNull) \<and>
                    (\<forall>m p. v = JFloat (Finite m) \<and> m \<noteq> 0 \<and>
                       nearest_double (m * (8106479329266893 / 2251799813685248)) = Finite p \<longrightarrow>
                       seg_speed_kmh (segs ! i) =
                         JFloat (if round_half_even (p * 10) = 0
                                 then (if p < 0 then NegZero else Finite 0)
                                 else nearest_double (of_int (round_half_even (p * 10)) / 10))))) \<and>
                 (ns \<le> i \<longrightarrow> seg_speed_kmh (segs ! i) = JNull) \<and>
                 (nc \<le> i \<longrightarrow> seg_congestion (segs ! i) = JNull \<and>
                            seg_color (segs ! i) = ''gray'') \<and>
                 (nd \<le> i \<longrightarrow> seg_duration_s (segs ! i) = JNull)"
      using build_segment_annotations by blast
    with leg ann cg sp sd show ?thesis unfolding rs by blast
  qed
  with live color_for_congestion_None show ?thesis by blast
qed

text \<open>
  The first sample route has three segments, speeds \<open>[0.125, "fast"]\<close>, one congestion
  entry and no duration entry. The product \<open>0.125 * 3.6\<close> is the double
  0.45000000000000001, above 0.45, so that \<open>speed_kmh\<close> is 0.5.
\<close>

theorem segment_annotations_aligned_or_absent_witness:
  "fetch_routes sample_provider (Some '' Delhi '') (Some ''Agra'') =
     (Inr (Inr sample_fetched), sample_calls) \<and>
   api_route sample_provider (Some '' Delhi '') (Some ''Agra'') =
     (Inr sample_response, sample_calls) \<and>
   nearest_double (1 / 8 * (8106479329266893 / 2251799813685248)) =
     Finite (8106479329266893 / 18014398509481984) \<and>
   round_half_even (8106479329266893 / 18014398509481984 * 10) = 5 \<and>
   nearest_double (rat_of_int 5 / 10) = Finite (1 / 2) \<and>
   seg_speed_kmh (route_segments (sample_routes ! 0) ! 0) = JFloat (Finite (1 / 2)) \<and>
   seg_speed_kmh (route_segments (sample_routes ! 0) ! 1) = JNull \<and>
   seg_speed_kmh (route_segments (sample_routes ! 0) ! 2) = JNull \<and>
   seg_congestion (route_segments (sample_routes ! 0) ! 1) = JNull \<and>
   seg_color (route_segments (sample_routes ! 0) ! 1) = ''gray'' \<and>
   seg_duration_s (route_segments (sample_routes ! 0) ! 0) = JNull"
proof -
  from segment_annotations_aligned_or_absent [OF sample_fetch sample_api_route_body]
  obtain lives where
    live: "live_routes sample_fetched = JArr lives" and
    each: "\<forall>k<length lives. \<exists>leg ann congestions speeds seg_durations.
              first_leg (lives ! k) = Inr leg \<and>
              py_get leg ''annotation'' (JObj []) = Inr ann \<and>
              annotation_array ann ''congestion'' = Inr congestions \<and>
              annotation_array ann ''speed'' = Inr speeds \<and>
              annotation_array ann ''duration'' = Inr seg_durations \<and>
              (\<forall>i<length (route_segments (sample_routes ! k)). \<exists>nc ns nd.
                 py_len congestions = Inr nc \<and> py_len speeds = Inr ns \<and>
                 py_len seg_durations = Inr nd \<and>
                 (i < ns \<longrightarrow> (\<exists>v. py_getitem_idx speeds i = Inr v \<and>
                    (isinstance_int_float v \<longrightarrow>
                       (\<exists>x. as_double v = Inr x \<and>
                          seg_speed_kmh (route_segments (sample_routes ! k) ! i) = JFloat (py_round1 (float_mul x three_point_six)))) \<and>
                    (\<not> isinstance_int_float v \<longrightarrow> seg_speed_kmh (route_segments (sample_routes ! k) ! i) = JNull) \<and>
                    (\<forall>m p. v = JFloat (Finite m) \<and> m \<noteq> 0 \<and>
                       nearest_double (m * (8106479329266893 / 2251799813685248)) = Finite p \<longrightarrow>
                       seg_speed_kmh (route_segments (sample_routes ! k) ! i) =
                         JFloat (if round_half_even (p * 10) = 0
                                 then (if p < 0 then NegZero else Finite 0)
                                 else nearest_double (of_int (round_half_even (p * 10)) / 10))))) \<and>
                 (ns \<le> i \<longrightarrow> seg_speed_kmh (route_segments (sample_routes ! k) ! i) = JNull) \<and>
                 (nc \<le> i \<longrightarrow> seg_congestion (route_segments (sample_routes ! k) ! i) = JNull \<and>
                            seg_color (route_segments (sample_routes ! k) ! i) = ''gray'') \<and>
                 (nd \<le> i \<longrightarrow> seg_duration_s (route_segments (sample_routes ! k) ! i) = JNull))"
    by blast
  from live have lives: "lives = [sample_live_route, JObj []]" by (simp add: sample_fetched_def)
  then have "0 < length lives" by simp
  from each [rule_format, OF this] obtain leg ann cg sp sd where
    leg: "first_leg (lives ! 0) = Inr leg" and
    ann: "py_get leg ''annotation'' (JObj []) = Inr ann" and
    cg: "annotation_array ann ''congestion'' = Inr cg" and
    sp: "annotation_array ann ''speed'' = Inr sp" and
    sd: "annotation_array ann ''duration'' = Inr sd" and
    segs: "\<forall>i<length (route_segments (sample_routes ! 0)). \<exists>nc ns nd.
                 py_len cg = Inr nc \<and> py_len sp = Inr ns \<and>
                 py_len sd = Inr nd \<and>
                 (i < ns \<longrightarrow> (\<exists>v. py_getitem_idx sp i = Inr v \<and>
                    (isinstance_int_float v \<longrightarrow>
                       (\<exists>x. as_double v = Inr x \<and>
                          seg_speed_kmh (route_segments (sample_routes ! 0) ! i) = JFloat (py_round1 (float_mul x three_point_six)))) \<and>
                    (\<not> isinstance_int_float v \<longrightarrow> seg_speed_kmh (route_segments (sample_routes ! 0) ! i) = JNull) \<and>
                    (\<forall>m p. v = JFloat (Finite m) \<and> m \<noteq> 0 \<and>
                       nearest_double (m * (8106479329266893 / 2251799813685248)) = Finite p \<longrightarrow>
                       seg_speed_kmh (route_segments (sample_routes ! 0) ! i) =
                         JFloat (if round_half_even (p * 10) = 0
                                 then (if p < 0 then NegZero else Finite 0)
                                 else nearest_double (of_int (round_half_even (p * 10)) / 10))))) \<and>
                 (ns \<le> i \<longrightarrow> seg_speed_kmh (route_segments (sample_routes ! 0) ! i) = JNull) \<and>
                 (nc \<le> i \<longrightarrow> seg_congestion (route_segments (sample_routes ! 0) ! i) = JNull \<and>
                            seg_color (route_segments (sample_routes ! 0) ! i) = ''gray'') \<and>
                 (nd \<le> i \<longrightarrow> seg_duration_s (route_segments (sample_routes ! 0) ! i) = JNull)"
    by blast
  from leg lives have "leg = JObj [(''annotation'',
                         JObj [(''congestion'', JArr [JStr ''heavy'']),
                               (''speed'', JArr [JFloat (Finite (1 / 8)), JStr ''fast'']),
                               (''duration'', JArr [])])]"
    by (simp add: first_leg_def sample_live_route_def and_then_def py_or_def)
  with ann have ann': "ann = JObj [(''congestion'', JArr [JStr ''heavy'']),
                               (''speed'', JArr [JFloat (Finite (1 / 8)), JStr ''fast'']),
                               (''duration'', JArr [])]"
    by simp
  from cg ann' have cg': "cg = JArr [JStr ''heavy'']"
    by (simp add: annotation_array_def and_then_def py_or_def)
  from sp ann' have sp': "sp = JArr [JFloat (Finite (1 / 8)), JStr ''fast'']"
    by (simp add: annotation_array_def and_then_def py_or_def)
  from sd ann' have sd': "sd = JArr []"
    by (simp add: annotation_array_def and_then_def py_or_def)
  have len: "length (route_segments (sample_routes ! 0)) = 3" by (simp add: sample_routes_def)
  have i0: "(0::nat) < 3" and i1: "(1::nat) < 3" and i2: "(2::nat) < 3" by simp_all
  have product: "nearest_double (1 / 8 * (8106479329266893 / 2251799813685248)) =
      Finite (8106479329266893 / 18014398509481984)"
    by (simp add: double_eval)
  have decimal: "round_half_even (8106479329266893 / 18014398509481984 * 10) = 5"
    by (simp add: double_eval)
  have reread: "nearest_double (rat_of_int 5 / 10) = Finite (1 / 2)"
    by (simp add: double_eval)
  from segs [rule_format, of 0] len i0 obtain nc ns nd where
    ns0: "py_len sp = Inr ns" and nd0: "py_len sd = Inr nd" and
    at0: "0 < ns \<longrightarrow> (\<exists>v. py_getitem_idx sp 0 = Inr v \<and>
            (\<forall>m p. v = JFloat (Finite m) \<and> m \<noteq> 0 \<and>
               nearest_double (m * (8106479329266893 / 2251799813685248)) = Finite p \<longrightarrow>
               seg_speed_kmh (route_segments (sample_routes ! 0) ! 0) =
                 JFloat (if round_half_even (p * 10) = 0
                         then (if p < 0 then NegZero else Finite 0)
                         else nearest_double (of_int (round_half_even (p * 10)) / 10))))" and
    dur0: "nd \<le> 0 \<longrightarrow> seg_duration_s (route_segments (sample_routes ! 0) ! 0) = JNull"
    by auto
  from ns0 have "ns = 2" by (simp add: sp')
  with at0 have "\<forall>m p. JFloat (Finite (1 / 8)) = JFloat (Finite m) \<and> m \<noteq> 0 \<and>
               nearest_double (m * (8106479329266893 / 2251799813685248)) = Finite p \<longrightarrow>
               seg_speed_kmh (route_segments (sample_routes ! 0) ! 0) =
                 JFloat (if round_half_even (p * 10) = 0
                         then (if p < 0 then NegZero else Finite 0)
                         else nearest_double (of_int (round_half_even (p * 10)) / 10))"
    by (simp add: sp')
  from this [rule_format, of "1 / 8" "8106479329266893 / 18014398509481984"] product
  have "seg_speed_kmh (route_segments (sample_routes ! 0) ! 0) =
      JFloat (if round_half_even (8106479329266893 / 18014398509481984 * 10) = 0
              then (if (8106479329266893 / 18014398509481984 :: rat) < 0 then NegZero else Finite 0)
              else nearest_double
                (of_int (round_half_even (8106479329266893 / 18014398509481984 * 10)) / 10))"
    by simp
  then have s0: "seg_speed_kmh (route_segments (sample_routes ! 0) ! 0) = JFloat (Finite (1 / 2))"
    unfolding decimal using reread by simp
  from nd0 dur0 have d0: "seg_duration_s (route_segments (sample_routes ! 0) ! 0) = JNull"
    by (simp add: sd')
  from segs [rule_format, of 1] len i1
  have s1: "seg_speed_kmh (route_segments (sample_routes ! 0) ! 1) = JNull"
    and c1: "seg_congestion (route_segments (sample_routes ! 0) ! 1) = JNull"
      "seg_color (route_segments (sample_routes ! 0) ! 1) = ''gray''"
    by (auto simp: cg' sp' sd')
  from segs [rule_format, of 2] len i2
  have s2: "seg_speed_kmh (route_segments (sample_routes ! 0) ! 2) = JNull"
    by (auto simp: cg' sp' sd')
  show ?thesis
    by (intro conjI sample_fetch sample_api_route product decimal reread s0 s1 s2 c1 d0)
qed

section \<open>Missing distance and duration\<close>

lemma build_route_obj:
  assumes "build_route base (k, lr) = Inr rp"
  shows "\<exists>kvs. lr = JObj kvs \<and>
           route_distance_m rp = (case map_of kvs ''distance'' of None \<Rightarrow> JInt 0 | Some v \<Rightarrow> v) \<and>
           (map_of kvs ''duration'' = None \<longrightarrow> traffic_s (route_durations rp) = 0)"
proof -
  from build_route_Inr [OF assms] obtain distance_m live_duration base_duration ds where
    dm: "py_get lr ''distance'' (JInt 0) = Inr distance_m" and
    ld: "py_get lr ''duration'' (JInt 0) = Inr live_duration" and
    ds: "build_durations live_duration base_duration = Inr ds" and
    rp: "route_distance_m rp = distance_m" "route_durations rp = ds"
    by force
  from py_get_Inr_obj [OF dm] obtain kvs where lr: "lr = JObj kvs" by blast
  from build_durations_Inr [OF ds] obtain t where
    t: "py_round live_duration = Inr t" "traffic_s ds = t" by force
  have "map_of kvs ''duration'' = None \<longrightarrow> traffic_s ds = 0"
    using ld t lr by auto
  with dm lr rp show ?thesis by auto
qed

text \<open>
  C10: a live route object without a "distance" field, or without a "duration" field,
  is assembled exactly as the same object with that field set to 0, so the missing
  field raises nothing. In a successful response every live route is an object,
  \<open>distance_m\<close> is its distance field when present and 0 otherwise, and \<open>traffic_s\<close> is
  0 when the duration field is missing.
\<close>

theorem missing_distance_or_duration_is_zero:
  assumes fetched: "fetch_routes env start_arg end_arg = (Inr (Inr f), calls)"
    and ok: "api_route env start_arg end_arg = (Inr (Routes_body s e routes, status), calls')"
  shows "(\<forall>base k kvs. map_of kvs ''distance'' = None \<longrightarrow>
            build_route base (k, JObj kvs) = build_route base (k, JObj ((''distance'', JInt 0) # kvs))) \<and>
         (\<forall>base k kvs. map_of kvs ''duration'' = None \<longrightarrow>
            build_route base (k, JObj kvs) = build_route base (k, JObj ((''duration'', JInt 0) # kvs))) \<and>
         (\<exists>lives. live_routes f = JArr lives \<and>
            (\<forall>k<length lives. \<exists>kvs. lives ! k = JObj kvs \<and>
               route_distance_m (routes ! k) =
                 (case map_of kvs ''distance'' of None \<Rightarrow> JInt 0 | Some v \<Rightarrow> v) \<and>
               (map_of kvs ''duration'' = None \<longrightarrow> traffic_s (route_durations (routes ! k)) = 0)))"
proof (intro conjI allI impI)
  fix base k and kvs :: "(string \<times> json) list"
  assume "map_of kvs ''distance'' = None"
  then show "build_route base (k, JObj kvs) = build_route base (k, JObj ((''distance'', JInt 0) # kvs))"
    by (simp add: build_route_def first_leg_def route_coords_def)
next
  fix base k and kvs :: "(string \<times> json) list"
  assume "map_of kvs ''duration'' = None"
  then show "build_route base (k, JObj kvs) = build_route base (k, JObj ((''duration'', JInt 0) # kvs))"
    by (simp add: build_route_def first_leg_def route_coords_def)
next
  from api_route_routes [OF fetched ok] obtain lives where
    live: "live_routes f = JArr lives" and
    each: "\<forall>k<length lives. build_route (base_routes f) (k, lives ! k) = Inr (routes ! k)"
    by blast
  from each build_route_obj
  have "\<forall>k<length lives. \<exists>kvs. lives ! k = JObj kvs \<and>
               route_distance_m (routes ! k) =
                 (case map_of kvs ''distance'' of None \<Rightarrow> JInt 0 | Some v \<Rightarrow> v) \<and>
               (map_of kvs ''duration'' = None \<longrightarrow> traffic_s (route_durations (routes ! k)) = 0)"
    by blast
  with live show "\<exists>lives. live_routes f = JArr lives \<and>
            (\<forall>k<length lives. \<exists>kvs. lives ! k = JObj kvs \<and>
               route_distance_m (routes ! k) =
                 (case map_of kvs ''distance'' of None \<Rightarrow> JInt 0 | Some v \<Rightarrow> v) \<and>
               (map_of kvs ''duration'' = None \<longrightarrow> traffic_s (route_durations (routes ! k)) = 0))"
    by blast
qed

text \<open>The second sample live route is the empty object; the first has distance 1000.\<close>

theorem missing_distance_or_duration_is_zero_witness:
  "fetch_routes sample_provider (Some '' Delhi '') (Some ''Agra'') =
     (Inr (Inr sample_fetched), sample_calls) \<and>
   api_route sample_provider (Some '' Delhi '') (Some ''Agra'') =
     (Inr sample_response, sample_calls) \<and>
   route_distance_m (sample_routes ! 0) = JInt 1000 \<and>
   route_distance_m (sample_routes ! 1) = JInt 0 \<and>
   traffic_s (route_durations (sample_routes ! 1)) = 0"
proof -
  from missing_distance_or_duration_is_zero [OF sample_fetch sample_api_route_body]
  obtain lives where
    live: "live_routes sample_fetched = JArr lives" and
    each: "\<forall>k<length lives. \<exists>kvs. lives ! k = JObj kvs \<and>
               route_distance_m (sample_routes ! k) =
                 (case map_of kvs ''distance'' of None \<Rightarrow> JInt 0 | Some v \<Rightarrow> v) \<and>
               (map_of kvs ''duration'' = None \<longrightarrow>
                  traffic_s (route_durations (sample_routes ! k)) = 0)"
    by blast
  from live have lives: "lives = [sample_live_route, JObj []]" by (simp add: sample_fetched_def)
  then have k0: "0 < length lives" and k1: "1 < length lives" by simp_all
  from each [rule_format, OF k0] lives
  have r0: "route_distance_m (sample_routes ! 0) = JInt 1000"
    by (auto simp: sample_live_route_def)
  from each [rule_format, OF k1] lives
  have r1: "route_distance_m (sample_routes ! 1) = JInt 0"
    "traffic_s (route_durations (sample_routes ! 1)) = 0"
    by auto
  from r0 r1 sample_fetch sample_api_route show ?thesis by simp
qed

section \<open>No routes\<close>

lemma sample_geocode_with:
  "geocode_place (sample_provider_with b l) [] ''Delhi'' =
     (Inr (JFloat (Finite (229 / 8)), JFloat (Finite (309 / 4))), [Geocoding ''Delhi''])"
  "geocode_place (sample_provider_with b l) [Geocoding ''Delhi''] ''Agra'' =
     (Inr (JFloat (Finite (217 / 8)), JFloat (Finite 78)), [Geocoding ''Delhi'', Geocoding ''Agra''])"
  by (simp_all add: geocode_place_def http_get_json_def sample_provider_with_def
      sample_feature_def geocode_result_def and_then_def py_unpack2_def)

text \<open>
  C6: with both parameters present and both places geocoded, if the baseline query
  returns a route collection that is empty (or missing, or any falsy value) the handler
  answers 404 with the error "No base routes found"; if the baseline collection is not
  empty and the live-traffic query returns an empty one, it answers 404 with the error
  "No live traffic routes found". In both cases the body is the error, not a routes
  payload.
\<close>

theorem empty_route_collection_is_404:
  assumes start: "strip (arg_or_empty start_arg) \<noteq> []"
    and end_p: "strip (arg_or_empty end_arg) \<noteq> []"
    and g1: "geocode_place env [] (strip (arg_or_empty start_arg)) = (Inr (la1, lo1), calls1)"
    and g2: "geocode_place env calls1 (strip (arg_or_empty end_arg)) = (Inr (la2, lo2), calls2)"
    and found: "\<not> is_None la1" "\<not> is_None la2"
    and base: "mapbox_directions env calls2 la1 lo1 la2 lo2 ''driving'' None True =
                 (Inr base_json, calls3)"
    and routes: "py_get base_json ''routes'' (JArr []) = Inr base"
  shows "(\<not> truthy base \<longrightarrow>
            api_route env start_arg end_arg = (Inr (Error_body ''No base routes found'', 404), calls3)) \<and>
         (truthy base \<longrightarrow>
            (\<forall>live_json calls4 live.
               mapbox_directions env calls3 la1 lo1 la2 lo2 ''driving-traffic''
                 (Some ''congestion,congestion_numeric,speed,duration,distance'') True =
                 (Inr live_json, calls4) \<longrightarrow>
               py_get live_json ''routes'' (JArr []) = Inr live \<longrightarrow>
               \<not> truthy live \<longrightarrow>
               api_route env start_arg end_arg =
                 (Inr (Error_body ''No live traffic routes found'', 404), calls4)))"
  using assms by (simp add: api_route_def fetch_routes_def Let_def)

text \<open>The sample provider with an empty baseline collection, then with an empty live one.\<close>

theorem empty_route_collection_is_404_witness:
  "api_route (sample_provider_with (JObj [(''routes'', JArr [])]) sample_live)
     (Some ''Delhi'') (Some ''Agra'') =
     (Inr (Error_body ''No base routes found'', 404),
      [Geocoding ''Delhi'', Geocoding ''Agra'',
       Directions ''driving'' (JFloat (Finite (229 / 8))) (JFloat (Finite (309 / 4))) (JFloat (Finite (217 / 8))) (JFloat (Finite 78))
         None True]) \<and>
   api_route (sample_provider_with sample_base (JObj [(''routes'', JArr [])]))
     (Some ''Delhi'') (Some ''Agra'') =
     (Inr (Error_body ''No live traffic routes found'', 404), sample_calls)"
proof -
  have s: "strip (arg_or_empty (Some ''Delhi'')) = ''Delhi''"
    and e: "strip (arg_or_empty (Some ''Agra'')) = ''Agra''"
    by (simp_all add: arg_or_empty_def strip_def isspace_def)
  have s_ne: "strip (arg_or_empty (Some ''Delhi'')) \<noteq> []"
    and e_ne: "strip (arg_or_empty (Some ''Agra'')) \<noteq> []"
    by (simp_all add: s e)
  have found: "\<not> is_None (JFloat (Finite (229 / 8)))" "\<not> is_None (JFloat (Finite (217 / 8)))" by simp_all
  have g1: "geocode_place (sample_provider_with b l) [] (strip (arg_or_empty (Some ''Delhi''))) =
      (Inr (JFloat (Finite (229 / 8)), JFloat (Finite (309 / 4))), [Geocoding ''Delhi''])" for b l
    using sample_geocode_with(1) by (simp add: s)
  have g2: "geocode_place (sample_provider_with b l) [Geocoding ''Delhi'']
      (strip (arg_or_empty (Some ''Agra''))) =
      (Inr (JFloat (Finite (217 / 8)), JFloat (Finite 78)), [Geocoding ''Delhi'', Geocoding ''Agra''])" for b l
    using sample_geocode_with(2) by (simp add: e)
  have base1: "mapbox_directions (sample_provider_with (JObj [(''routes'', JArr [])]) sample_live)
      [Geocoding ''Delhi'', Geocoding ''Agra'']
      (JFloat (Finite (229 / 8))) (JFloat (Finite (309 / 4))) (JFloat (Finite (217 / 8))) (JFloat (Finite 78)) ''driving'' None True =
      (Inr (JObj [(''routes'', JArr [])]),
       [Geocoding ''Delhi'', Geocoding ''Agra'',
        Directions ''driving'' (JFloat (Finite (229 / 8))) (JFloat (Finite (309 / 4))) (JFloat (Finite (217 / 8))) (JFloat (Finite 78))
          None True])"
    by (simp add: mapbox_directions_def http_get_json_def sample_provider_with_def)
  have r1: "py_get (JObj [(''routes'', JArr [])]) ''routes'' (JArr []) = Inr (JArr [])" by simp
  have 1: "api_route (sample_provider_with (JObj [(''routes'', JArr [])]) sample_live)
     (Some ''Delhi'') (Some ''Agra'') =
     (Inr (Error_body ''No base routes found'', 404),
      [Geocoding ''Delhi'', Geocoding ''Agra'',
       Directions ''driving'' (JFloat (Finite (229 / 8))) (JFloat (Finite (309 / 4))) (JFloat (Finite (217 / 8))) (JFloat (Finite 78))
         None True])"
    using empty_route_collection_is_404 [OF s_ne e_ne g1 g2 found base1 r1]
    by simp
  have base2: "mapbox_directions (sample_provider_with sample_base (JObj [(''routes'', JArr [])]))
      [Geocoding ''Delhi'', Geocoding ''Agra'']
      (JFloat (Finite (229 / 8))) (JFloat (Finite (309 / 4))) (JFloat (Finite (217 / 8))) (JFloat (Finite 78)) ''driving'' None True =
      (Inr sample_base,
       [Geocoding ''Delhi'', Geocoding ''Agra'',
        Directions ''driving'' (JFloat (Finite (229 / 8))) (JFloat (Finite (309 / 4))) (JFloat (Finite (217 / 8))) (JFloat (Finite 78))
          None True])"
    by (simp add: mapbox_directions_def http_get_json_def sample_provider_with_def)
  have r2: "py_get sample_base ''routes'' (JArr []) =
      Inr (JArr [JObj [(''duration'', JFloat (Finite (5 / 8))), (''distance'', JInt 900)]])"
    by (simp add: sample_base_def)
  have live2: "mapbox_directions (sample_provider_with sample_base (JObj [(''routes'', JArr [])]))
      [Geocoding ''Delhi'', Geocoding ''Agra'',
        Directions ''driving'' (JFloat (Finite (229 / 8))) (JFloat (Finite (309 / 4))) (JFloat (Finite (217 / 8))) (JFloat (Finite 78))
          None True]
      (JFloat (Finite (229 / 8))) (JFloat (Finite (309 / 4))) (JFloat (Finite (217 / 8))) (JFloat (Finite 78)) ''driving-traffic''
      (Some ''congestion,congestion_numeric,speed,duration,distance'') True =
      (Inr (JObj [(''routes'', JArr [])]), sample_calls)"
    by (simp add: mapbox_directions_def http_get_json_def sample_provider_with_def sample_calls_def)
  have 2: "api_route (sample_provider_with sample_base (JObj [(''routes'', JArr [])]))
     (Some ''Delhi'') (Some ''Agra'') =
     (Inr (Error_body ''No live traffic routes found'', 404), sample_calls)"
    using empty_route_collection_is_404 [OF s_ne e_ne g1 g2 found base2 r2]
      live2 r1
    by simp
  from 1 2 show ?thesis by simp
qed

section \<open>Geocoding\<close>

lemma py_unpack2_None: "py_unpack2 cs = Inr (JNull, JNull) \<longleftrightarrow> cs = JArr [JNull, JNull]"
proof (cases cs)
  case (JArr xs)
  then show ?thesis by (auto simp: py_unpack2_def and_then_def split: list.splits)
next
  case (JStr s)
  then show ?thesis by (auto simp: py_unpack2_def and_then_def split: list.splits)
next
  case (JObj kvs)
  then show ?thesis by (auto simp: py_unpack2_def and_then_def split: list.splits)
qed (simp_all add: py_unpack2_def and_then_def)

lemma py_get_truthy_key:
  assumes "py_get data key JNull = Inr v" and "truthy v"
  shows "py_getitem_key data key = Inr v"
  using assms by (cases data) (auto split: option.splits)

lemma geocode_result_sentinel:
  "geocode_result data = Inr (JNull, JNull) \<longleftrightarrow>
     (\<exists>features. py_get data ''features'' JNull = Inr features \<and>
        (\<not> truthy features \<or>
         (\<exists>f g. py_getitem_idx features 0 = Inr f \<and> py_getitem_key f ''geometry'' = Inr g \<and>
                py_getitem_key g ''coordinates'' = Inr (JArr [JNull, JNull]))))"
  (is "?l \<longleftrightarrow> ?r")
proof
  assume ?l
  then obtain features where
    fs: "py_get data ''features'' JNull = Inr features" and
    rest: "(if truthy features then
         and_then (py_getitem_key data ''features'') (\<lambda>fs.
         and_then (py_getitem_idx fs 0) (\<lambda>f.
         and_then (py_getitem_key f ''geometry'') (\<lambda>g.
         and_then (py_getitem_key g ''coordinates'') (\<lambda>cs.
         and_then (py_unpack2 cs) (\<lambda>(lon, lat). Inr (lat, lon))))))
       else Inr (JNull, JNull)) = Inr (JNull, JNull)"
    unfolding geocode_result_def and_then_Inr by blast
  show ?r
  proof (cases "truthy features")
    case False
    with fs show ?thesis by blast
  next
    case True
    with rest py_get_truthy_key [OF fs True] obtain f g cs where
      "py_getitem_idx features 0 = Inr f" "py_getitem_key f ''geometry'' = Inr g"
      "py_getitem_key g ''coordinates'' = Inr cs" "py_unpack2 cs = Inr (JNull, JNull)"
      by (auto simp: and_then_Inr)
    with fs show ?thesis by (auto simp: py_unpack2_None)
  qed
next
  assume ?r
  then obtain features where
    fs: "py_get data ''features'' JNull = Inr features" and
    alt: "\<not> truthy features \<or>
         (\<exists>f g. py_getitem_idx features 0 = Inr f \<and> py_getitem_key f ''geometry'' = Inr g \<and>
                py_getitem_key g ''coordinates'' = Inr (JArr [JNull, JNull]))"
    by blast
  show ?l
  proof (cases "truthy features")
    case False
    with fs show ?thesis by (simp add: geocode_result_def and_then_def)
  next
    case True
    with alt obtain f g where
      "py_getitem_idx features 0 = Inr f" "py_getitem_key f ''geometry'' = Inr g"
      "py_getitem_key g ''coordinates'' = Inr (JArr [JNull, JNull])"
      by blast
    with fs True py_get_truthy_key [OF fs True] show ?thesis
      by (simp add: geocode_result_def and_then_def py_unpack2_def)
  qed
qed

lemma geocode_place_Inr:
  "geocode_place env calls place = (Inr r, calls') \<longleftrightarrow>
     calls' = calls @ [Geocoding place] \<and>
     (\<exists>status data. env calls' = Http_reply status (Some data) \<and>
        \<not> (400 \<le> status \<and> status < 600) \<and> geocode_result data = Inr r)"
  by (auto simp: geocode_place_def http_get_json_def Let_def
      split: http_reply.splits option.splits sum.splits if_splits)

lemma geocode_place_raises:
  "env (calls @ [Geocoding place]) = Transport_failure \<Longrightarrow>
     geocode_place env calls place = (Inl RequestException, calls @ [Geocoding place])"
  "env (calls @ [Geocoding place]) = Http_reply status body \<Longrightarrow> 400 \<le> status \<Longrightarrow> status < 600 \<Longrightarrow>
     geocode_place env calls place = (Inl HTTPError, calls @ [Geocoding place])"
  by (simp_all add: geocode_place_def http_get_json_def Let_def)

lemma api_route_geocoded:
  assumes "strip (arg_or_empty start_arg) \<noteq> []" and "strip (arg_or_empty end_arg) \<noteq> []"
    and "geocode_place env [] (strip (arg_or_empty start_arg)) = (Inr (la1, lo1), calls1)"
    and "geocode_place env calls1 (strip (arg_or_empty end_arg)) = (Inr (la2, lo2), calls2)"
  shows "fst (api_route env start_arg end_arg) =
           Inr (Error_body ''Could not geocode one or both places.'', 400)
         \<longleftrightarrow> is_None la1 \<or> is_None la2"
  using assms
  by (auto simp: api_route_def fetch_routes_def Let_def split: prod.splits sum.splits)

text \<open>
  C8, as stated, fails in the "only if": a successful reply whose feature set is not
  empty, but whose first feature has the coordinates \<^verbatim>\<open>[null, null]\<close>, unpacks to
  \<^verbatim>\<open>(None, None)\<close>, the value returned for "not found".
\<close>

theorem geocode_not_found_counterexample:
  "geocode_place null_coordinates_provider [] ''Nowhere'' =
     (Inr (JNull, JNull), [Geocoding ''Nowhere'']) \<and>
   null_coordinates_provider [Geocoding ''Nowhere''] = Http_reply 200 (Some null_coordinates_reply) \<and>
   py_get null_coordinates_reply ''features'' JNull =
     Inr (JArr [JObj [(''geometry'', JObj [(''coordinates'', JArr [JNull, JNull])])]]) \<and>
   truthy (JArr [JObj [(''geometry'', JObj [(''coordinates'', JArr [JNull, JNull])])]])"
  by (simp add: geocode_place_def http_get_json_def null_coordinates_provider_def
      null_coordinates_reply_def geocode_result_def and_then_def py_unpack2_def)

text \<open>
  C8 (amended): \<open>geocode_place\<close> returns \<^verbatim>\<open>(None, None)\<close> exactly when the provider
  answers with a status outside 400-599 and a JSON object whose feature set is empty
  (missing or falsy), or whose first feature has the coordinates \<^verbatim>\<open>[null, null]\<close>;
  a transport failure raises RequestException and a status from 400 to 599 raises
  HTTPError, neither is turned into "not found". With both parameters present and both
  geocoding calls returning, the route query answers 400 with the error
  "Could not geocode one or both places." exactly when one of the two returned
  latitudes is None.
\<close>

theorem geocode_not_found_and_failures:
  "(geocode_place env calls place = (Inr (JNull, JNull), calls') \<longleftrightarrow>
      calls' = calls @ [Geocoding place] \<and>
      (\<exists>status data features.
         env calls' = Http_reply status (Some data) \<and> \<not> (400 \<le> status \<and> status < 600) \<and>
         py_get data ''features'' JNull = Inr features \<and>
         (\<not> truthy features \<or>
          (\<exists>f g. py_getitem_idx features 0 = Inr f \<and> py_getitem_key f ''geometry'' = Inr g \<and>
                 py_getitem_key g ''coordinates'' = Inr (JArr [JNull, JNull]))))) \<and>
   (env (calls @ [Geocoding place]) = Transport_failure \<longrightarrow>
      geocode_place env calls place = (Inl RequestException, calls @ [Geocoding place])) \<and>
   (\<forall>status body.
      env (calls @ [Geocoding place]) = Http_reply status body \<and> 400 \<le> status \<and> status < 600 \<longrightarrow>
      geocode_place env calls place = (Inl HTTPError, calls @ [Geocoding place])) \<and>
   (\<forall>start_arg end_arg la1 lo1 calls1 la2 lo2 calls2.
      strip (arg_or_empty start_arg) \<noteq> [] \<and> strip (arg_or_empty end_arg) \<noteq> [] \<and>
      geocode_place env [] (strip (arg_or_empty start_arg)) = (Inr (la1, lo1), calls1) \<and>
      geocode_place env calls1 (strip (arg_or_empty end_arg)) = (Inr (la2, lo2), calls2) \<longrightarrow>
      (fst (api_route env start_arg end_arg) =
         Inr (Error_body ''Could not geocode one or both places.'', 400)
       \<longleftrightarrow> is_None la1 \<or> is_None la2))"
proof (intro conjI allI impI)
  show "geocode_place env calls place = (Inr (JNull, JNull), calls') \<longleftrightarrow>
      calls' = calls @ [Geocoding place] \<and>
      (\<exists>status data features.
         env calls' = Http_reply status (Some data) \<and> \<not> (400 \<le> status \<and> status < 600) \<and>
         py_get data ''features'' JNull = Inr features \<and>
         (\<not> truthy features \<or>
          (\<exists>f g. py_getitem_idx features 0 = Inr f \<and> py_getitem_key f ''geometry'' = Inr g \<and>
                 py_getitem_key g ''coordinates'' = Inr (JArr [JNull, JNull]))))"
    unfolding geocode_place_Inr geocode_result_sentinel by blast
next
  assume "env (calls @ [Geocoding place]) = Transport_failure"
  then show "geocode_place env calls place = (Inl RequestException, calls @ [Geocoding place])"
    by (rule geocode_place_raises(1))
next
  fix status body
  assume "env (calls @ [Geocoding place]) = Http_reply status body \<and> 400 \<le> status \<and> status < 600"
  then show "geocode_place env calls place = (Inl HTTPError, calls @ [Geocoding place])"
    using geocode_place_raises(2) by blast
next
  fix start_arg end_arg la1 lo1 calls1 la2 lo2 calls2
  assume "strip (arg_or_empty start_arg) \<noteq> [] \<and> strip (arg_or_empty end_arg) \<noteq> [] \<and>
      geocode_place env [] (strip (arg_or_empty start_arg)) = (Inr (la1, lo1), calls1) \<and>
      geocode_place env calls1 (strip (arg_or_empty end_arg)) = (Inr (la2, lo2), calls2)"
  then show "fst (api_route env start_arg end_arg) =
         Inr (Error_body ''Could not geocode one or both places.'', 400)
       \<longleftrightarrow> is_None la1 \<or> is_None la2"
    using api_route_geocoded by blast
qed

text \<open>
  An unknown place at the sample provider, a provider that is offline, one that answers
  503, and the route query of the interface description for an unknown start.
\<close>

theorem geocode_not_found_and_failures_witness:
  "geocode_place sample_provider [] ''Zzzzqxnotaplace123'' =
     (Inr (JNull, JNull), [Geocoding ''Zzzzqxnotaplace123'']) \<and>
   geocode_place offline_provider [] ''Delhi'' = (Inl RequestException, [Geocoding ''Delhi'']) \<and>
   geocode_place (failing_provider 503) [] ''Delhi'' = (Inl HTTPError, [Geocoding ''Delhi'']) \<and>
   fst (api_route sample_provider (Some ''Zzzzqxnotaplace123'') (Some ''Mumbai'')) =
     Inr (Error_body ''Could not geocode one or both places.'', 400)"
proof -
  have reply: "sample_provider ([] @ [Geocoding ''Zzzzqxnotaplace123'']) =
      Http_reply 200 (Some (JObj [(''features'', JArr [])]))"
    by (simp add: sample_provider_def)
  have 1: "geocode_place sample_provider [] ''Zzzzqxnotaplace123'' =
     (Inr (JNull, JNull), [Geocoding ''Zzzzqxnotaplace123''])"
    using geocode_not_found_and_failures
      [of sample_provider "[]" "''Zzzzqxnotaplace123''" "[Geocoding ''Zzzzqxnotaplace123'']"]
      reply
    by simp
  have 2: "geocode_place offline_provider [] ''Delhi'' = (Inl RequestException, [Geocoding ''Delhi''])"
    using geocode_not_found_and_failures [of offline_provider "[]" "''Delhi''" "[]"]
    by (simp add: offline_provider_def)
  have 3: "geocode_place (failing_provider 503) [] ''Delhi'' = (Inl HTTPError, [Geocoding ''Delhi''])"
    using geocode_not_found_and_failures [of "failing_provider 503" "[]" "''Delhi''" "[]"]
    by (simp add: failing_provider_def)
  have s: "strip (arg_or_empty (Some ''Zzzzqxnotaplace123'')) = ''Zzzzqxnotaplace123''"
    and e: "strip (arg_or_empty (Some ''Mumbai'')) = ''Mumbai''"
    by (simp_all add: arg_or_empty_def strip_def isspace_def)
  have g2: "geocode_place sample_provider [Geocoding ''Zzzzqxnotaplace123''] ''Mumbai'' =
      (Inr (JNull, JNull), [Geocoding ''Zzzzqxnotaplace123'', Geocoding ''Mumbai''])"
    by (simp add: geocode_place_def http_get_json_def sample_provider_def geocode_result_def
        and_then_def)
  have 4: "fst (api_route sample_provider (Some ''Zzzzqxnotaplace123'') (Some ''Mumbai'')) =
     Inr (Error_body ''Could not geocode one or both places.'', 400)"
    using geocode_not_found_and_failures [of sample_provider "[]" "''Zzzzqxnotaplace123''" "[]",
        THEN conjunct2, THEN conjunct2, THEN conjunct2, rule_format,
        of "Some ''Zzzzqxnotaplace123''" "Some ''Mumbai''" JNull JNull
          "[Geocoding ''Zzzzqxnotaplace123'']" JNull JNull
          "[Geocoding ''Zzzzqxnotaplace123'', Geocoding ''Mumbai'']"]
      1 g2
    by (simp add: s e)
  from 1 2 3 4 show ?thesis by simp
qed

end
